theory Spec2Isabelle
  imports Main "HOL-Library.Sublist"
begin

section \<open>The MCP client of \<^verbatim>\<open>client.py\<close>\<close>

text \<open>
  \<^verbatim>\<open>client.py\<close> connects a chat-completion API to a tool server. The class
  \<^verbatim>\<open>MCPClient\<close> has two methods with control flow: \<^verbatim>\<open>process_query\<close> (one user
  query, a \<^verbatim>\<open>while True\<close> loop of model calls and tool calls) and \<^verbatim>\<open>chat_loop\<close>
  (the read loop with its \<^verbatim>\<open>try\<close>/\<^verbatim>\<open>except Exception\<close>).

  The tool session, the completion API and \<^verbatim>\<open>json.loads\<close> are libraries outside
  the file. They are parameters of the model. A library call returns a value or raises,
  so its result type is \<open>exn + 'a\<close>. The session and the API are stateful: what they
  answer may depend on everything that was asked before, so each takes the log of the
  calls made so far. The log is also what the theorems read to say which calls were
  made, with which arguments, in which order.
\<close>

subsection \<open>Values and exceptions\<close>

text \<open>
  Tool schemas, parsed tool arguments and tool result contents are JSON-like objects that
  \<^verbatim>\<open>client.py\<close> passes on without looking inside.
\<close>

datatype json =
    JNull
  | JBool bool
  | JNum int
  | JStr string
  | JArr "json list"
  | JObj "(string \<times> json) list"

text \<open>
  The exceptions that can travel through \<^verbatim>\<open>process_query\<close> and \<^verbatim>\<open>chat_loop\<close>.
  \<open>AttributeError\<close>: an attribute of \<^verbatim>\<open>None\<close> is read (\<^verbatim>\<open>self.session\<close> before
  \<^verbatim>\<open>connect_to_server\<close>). \<open>IndexError\<close>: \<^verbatim>\<open>choices[0]\<close> of an empty list.
  \<open>TypeError\<close>: \<^verbatim>\<open>str + None\<close>. \<open>EOFError\<close>: \<^verbatim>\<open>input()\<close> at the end of the input.
  \<open>JSONDecodeError\<close>: \<^verbatim>\<open>json.loads\<close> on text that is not JSON.
  \<open>OtherException name\<close>: any other class derived from \<^verbatim>\<open>Exception\<close> that a library
  raises (the API client's and the tool session's errors).
  \<open>NonException name\<close>: a \<^verbatim>\<open>BaseException\<close> that is not an \<^verbatim>\<open>Exception\<close>
  (\<^verbatim>\<open>KeyboardInterrupt\<close>, \<^verbatim>\<open>asyncio.CancelledError\<close>), which \<^verbatim>\<open>except Exception\<close>
  lets through.
\<close>

datatype exn =
    AttributeError
  | IndexError
  | TypeError
  | EOFError
  | JSONDecodeError
  | OtherException string
  | NonException string

fun is_Exception :: "exn \<Rightarrow> bool" where
  "is_Exception (NonException _) = False"
| "is_Exception _ = True"

subsection \<open>The objects of the completion API and of the tool session\<close>

text \<open>\<^verbatim>\<open>tool_call.function\<close>: \<^verbatim>\<open>.name\<close> and \<^verbatim>\<open>.arguments\<close> (a JSON string).\<close>

record function_call =
  fn_name :: string
  fn_arguments :: string

text \<open>A requested tool call: \<^verbatim>\<open>.id\<close> and \<^verbatim>\<open>.function\<close>.\<close>

record tool_call =
  tc_id :: string
  tc_function :: function_call

text \<open>
  \<^verbatim>\<open>response.choices[0].message\<close>: \<^verbatim>\<open>.content\<close> (a string or \<^verbatim>\<open>None\<close>) and
  \<^verbatim>\<open>.tool_calls\<close> (a list or \<^verbatim>\<open>None\<close>).
\<close>

record chat_message =
  cm_content :: "string option"
  cm_tool_calls :: "tool_call list option"

record choice =
  message :: chat_message

record completion =
  choices :: "choice list"

text \<open>A tool as \<^verbatim>\<open>session.list_tools()\<close> describes it.\<close>

record tool =
  tool_name :: string
  tool_description :: "string option"
  inputSchema :: json

text \<open>The result of \<^verbatim>\<open>session.call_tool\<close>; \<^verbatim>\<open>isError\<close> is the server's failure flag.\<close>

record call_tool_result =
  res_content :: json
  isError :: bool

text \<open>
  One entry of \<^verbatim>\<open>available_tools\<close>:
  \<^verbatim>\<open>{"type": "function", "function": {"name", "description", "parameters"}}\<close>.
\<close>

record function_schema =
  fs_name :: string
  fs_description :: "string option"
  fs_parameters :: json

record available_tool =
  at_type :: string
  at_function :: function_schema

text \<open>
  One entry of the tool results:
  \<^verbatim>\<open>{"tool_call_id", "role": "tool", "name", "content"}\<close>.
\<close>

record tool_dict =
  tool_call_id :: string
  td_role :: string
  td_name :: string
  td_content :: json

text \<open>
  The list \<^verbatim>\<open>messages\<close> holds three kinds of entries: the dictionary
  \<^verbatim>\<open>{"role": "user", "content": query}\<close>, a response message object appended as it
  came, and a tool result dictionary.
\<close>

datatype entry =
    User_dict string
  | Response_message chat_message
  | Tool_dict tool_dict

text \<open>The keyword arguments of \<^verbatim>\<open>chat.completions.create\<close>.\<close>

record request =
  model :: string
  max_tokens :: int
  messages :: "entry list"
  tools :: "available_tool list"
  tool_choice :: string

subsection \<open>The log of library calls\<close>

datatype event =
    ListTools "exn + tool list"
  | Create request "exn + completion"
  | CallTool string json "exn + call_tool_result"

fun is_CallTool :: "event \<Rightarrow> bool" where
  "is_CallTool (CallTool _ _ _) = True"
| "is_CallTool _ = False"

fun is_Create :: "event \<Rightarrow> bool" where
  "is_Create (Create _ _) = True"
| "is_Create _ = False"

fun is_ListTools :: "event \<Rightarrow> bool" where
  "is_ListTools (ListTools _) = True"
| "is_ListTools _ = False"

text \<open>\<^verbatim>\<open>ClientSession\<close>: the two methods the client uses.\<close>

record client_session =
  list_tools :: "event list \<Rightarrow> exn + tool list"
  call_tool :: "event list \<Rightarrow> string \<Rightarrow> json \<Rightarrow> exn + call_tool_result"

text \<open>
  \<^verbatim>\<open>MCPClient\<close>: \<^verbatim>\<open>self.session\<close> is \<^verbatim>\<open>None\<close> until \<^verbatim>\<open>connect_to_server\<close> sets it;
  \<open>openai_create\<close> is \<^verbatim>\<open>self.openai_client.chat.completions.create\<close>.
\<close>

record mcp_client =
  session :: "client_session option"
  azure_deployment_name :: string
  openai_create :: "event list \<Rightarrow> request \<Rightarrow> exn + completion"

subsection \<open>\<^verbatim>\<open>process_query\<close>\<close>

datatype 'a outcome = Returned 'a | Raised exn | OutOfFuel

datatype flow = Return "string option" | Raise exn | Continue

text \<open>
  The \<^verbatim>\<open>for tool_call in tool_calls\<close> loop. \<open>L\<close> is \<^verbatim>\<open>json.loads\<close>. The results are
  collected in the local list \<open>tool_results\<close>; \<^verbatim>\<open>messages\<close> is not touched here.
  An exception of \<open>L\<close> or of \<^verbatim>\<open>call_tool\<close> leaves the loop at once. \<open>sess\<close> is
  \<^verbatim>\<open>self.session\<close>, the session that has answered \<^verbatim>\<open>list_tools\<close> before the loop.
\<close>

fun for_tool_calls ::
  "(string \<Rightarrow> exn + json) \<Rightarrow> client_session \<Rightarrow> tool_call list \<Rightarrow> tool_dict list \<Rightarrow>
   event list \<Rightarrow> (exn + tool_dict list) \<times> event list" where
  "for_tool_calls L sess [] tool_results tr = (Inr tool_results, tr)"
| "for_tool_calls L sess (tc # rest) tool_results tr =
     (let function_name = fn_name (tc_function tc) in
      case L (fn_arguments (tc_function tc)) of
        Inl e \<Rightarrow> (Inl e, tr)
      | Inr function_args \<Rightarrow>
          (let r = call_tool sess tr function_name function_args;
               tr' = tr @ [CallTool function_name function_args r] in
           case r of
             Inl e \<Rightarrow> (Inl e, tr')
           | Inr result \<Rightarrow>
               for_tool_calls L sess rest
                 (tool_results @
                    [\<lparr>tool_call_id = tc_id tc, td_role = ''tool'', td_name = function_name,
                      td_content = res_content result\<rparr>])
                 tr'))"

text \<open>
  One pass through the body of \<^verbatim>\<open>while True\<close>, from the state \<open>(msgs, tr)\<close>: the
  API call, \<^verbatim>\<open>choices[0]\<close>, the test \<^verbatim>\<open>if not tool_calls\<close> (\<^verbatim>\<open>None\<close> and the empty
  list are both false), the \<^verbatim>\<open>append\<close>, the \<^verbatim>\<open>for\<close> loop and the \<^verbatim>\<open>extend\<close>.
\<close>

definition loop_body ::
  "(string \<Rightarrow> exn + json) \<Rightarrow> mcp_client \<Rightarrow> client_session \<Rightarrow> available_tool list \<Rightarrow>
   entry list \<Rightarrow> event list \<Rightarrow> flow \<times> entry list \<times> event list" where
  "loop_body L c sess available_tools msgs tr =
     (let req = \<lparr>model = azure_deployment_name c, max_tokens = 1500, messages = msgs,
                 tools = available_tools, tool_choice = ''auto''\<rparr>;
          r = openai_create c tr req;
          tr1 = tr @ [Create req r] in
      case r of
        Inl e \<Rightarrow> (Raise e, msgs, tr1)
      | Inr response \<Rightarrow>
          (case choices response of
             [] \<Rightarrow> (Raise IndexError, msgs, tr1)
           | choice0 # _ \<Rightarrow>
               (let response_message = message choice0 in
                case cm_tool_calls response_message of
                  None \<Rightarrow> (Return (cm_content response_message), msgs, tr1)
                | Some [] \<Rightarrow> (Return (cm_content response_message), msgs, tr1)
                | Some (tc # tcs) \<Rightarrow>
                    (let msgs1 = msgs @ [Response_message response_message] in
                     case for_tool_calls L sess (tc # tcs) [] tr1 of
                       (Inl e, tr2) \<Rightarrow> (Raise e, msgs1, tr2)
                     | (Inr tool_results, tr2) \<Rightarrow>
                         (Continue, msgs1 @ map Tool_dict tool_results, tr2)))))"

text \<open>
  \<^verbatim>\<open>while True\<close>. The loop has no exit of its own, so the model counts passes: with
  \<open>n\<close> passes allowed and the loop still running after them the outcome is
  \<open>OutOfFuel\<close>, and the state returned is the one reached after \<open>n\<close> passes.
\<close>

fun while_True ::
  "nat \<Rightarrow> (string \<Rightarrow> exn + json) \<Rightarrow> mcp_client \<Rightarrow> client_session \<Rightarrow> available_tool list \<Rightarrow>
   entry list \<Rightarrow> event list \<Rightarrow> string option outcome \<times> entry list \<times> event list" where
  "while_True 0 L c sess available_tools msgs tr = (OutOfFuel, msgs, tr)"
| "while_True (Suc n) L c sess available_tools msgs tr =
     (case loop_body L c sess available_tools msgs tr of
        (Return answer, msgs', tr') \<Rightarrow> (Returned answer, msgs', tr')
      | (Raise e, msgs', tr') \<Rightarrow> (Raised e, msgs', tr')
      | (Continue, msgs', tr') \<Rightarrow> while_True n L c sess available_tools msgs' tr')"

text \<open>The list comprehension that builds \<^verbatim>\<open>available_tools\<close>.\<close>

definition to_available_tool :: "tool \<Rightarrow> available_tool" where
  "to_available_tool t =
     \<lparr>at_type = ''function'',
      at_function = \<lparr>fs_name = tool_name t, fs_description = tool_description t,
                     fs_parameters = inputSchema t\<rparr>\<rparr>"

text \<open>
  \<^verbatim>\<open>process_query(query)\<close>, started with the log \<open>tr\<close> of earlier calls. The result is
  the outcome, the local list \<^verbatim>\<open>messages\<close> as it is when the method is left, and the
  log. \<^verbatim>\<open>self.session.list_tools()\<close> on a session that is \<^verbatim>\<open>None\<close> raises
  \<open>AttributeError\<close>; the console messages of the method are not modelled.
\<close>

definition process_query ::
  "nat \<Rightarrow> (string \<Rightarrow> exn + json) \<Rightarrow> mcp_client \<Rightarrow> string \<Rightarrow> event list \<Rightarrow>
   string option outcome \<times> entry list \<times> event list" where
  "process_query fuel L c query tr =
     (let msgs = [User_dict query] in
      case session c of
        None \<Rightarrow> (Raised AttributeError, msgs, tr)
      | Some sess \<Rightarrow>
          (let r = list_tools sess tr;
               tr1 = tr @ [ListTools r] in
           case r of
             Inl e \<Rightarrow> (Raised e, msgs, tr1)
           | Inr response_tools \<Rightarrow>
               while_True fuel L c sess (map to_available_tool response_tools) msgs tr1))"

subsection \<open>\<^verbatim>\<open>chat_loop\<close>\<close>

text \<open>
  Strings are ASCII text here. \<^verbatim>\<open>str.strip()\<close> removes the white space of both ends
  (in ASCII: tab, line feed, vertical tab, form feed, carriage return, the four
  separators \<open>0x1C\<close> to \<open>0x1F\<close>, and the space); \<^verbatim>\<open>str.lower()\<close> maps \<open>A\<close> to \<open>Z\<close>
  to \<open>a\<close> to \<open>z\<close>.
\<close>

definition isspace :: "char \<Rightarrow> bool" where
  "isspace ch = ((of_char ch :: nat) \<in> {9, 10, 11, 12, 13, 28, 29, 30, 31, 32})"

definition strip :: "string \<Rightarrow> string" where
  "strip s = rev (dropWhile isspace (rev (dropWhile isspace s)))"

definition lower :: "string \<Rightarrow> string" where
  "lower s =
     map (\<lambda>ch. let n = (of_char ch :: nat) in
                if 65 \<le> n \<and> n \<le> 90 then char_of (n + 32) else ch) s"

text \<open>
  What \<^verbatim>\<open>chat_loop\<close> writes to the console: the two lines at the start, the prompt
  of \<^verbatim>\<open>input\<close>, the model's reply, and the error line with \<^verbatim>\<open>str(e)\<close>.
\<close>

datatype console =
    Print_started
  | Print_usage
  | Prompt
  | Print_reply string
  | Print_error exn

text \<open>
  The \<^verbatim>\<open>while True\<close> of \<^verbatim>\<open>chat_loop\<close>, with \<open>k\<close> passes allowed. The standard input is
  the list of the lines still to be read; \<^verbatim>\<open>input()\<close> on no line raises \<open>EOFError\<close>,
  inside the \<^verbatim>\<open>try\<close>. Each query runs \<^verbatim>\<open>process_query\<close> with \<open>fuel\<close> passes of its own
  loop; a query that is still running after them leaves \<^verbatim>\<open>chat_loop\<close> running too.
  \<^verbatim>\<open>except Exception\<close> takes the exceptions with \<open>is_Exception\<close>; the others leave
  the method. The reply is printed with \<^verbatim>\<open>"..." + response\<close>, a \<open>TypeError\<close> (inside
  the \<^verbatim>\<open>try\<close>) when \<^verbatim>\<open>response\<close> is \<^verbatim>\<open>None\<close>.
\<close>

fun chat_while ::
  "nat \<Rightarrow> nat \<Rightarrow> (string \<Rightarrow> exn + json) \<Rightarrow> mcp_client \<Rightarrow> string list \<Rightarrow> event list \<Rightarrow>
   console list \<Rightarrow> unit outcome \<times> string list \<times> event list \<times> console list" where
  "chat_while 0 fuel L c stdin tr out = (OutOfFuel, stdin, tr, out)"
| "chat_while (Suc k) fuel L c stdin tr out =
     (case stdin of
        [] \<Rightarrow> chat_while k fuel L c [] tr (out @ [Prompt, Print_error EOFError])
      | line # rest \<Rightarrow>
          (let query = strip line in
           if lower query = ''quit'' then (Returned (), rest, tr, out @ [Prompt])
           else if query = [] then chat_while k fuel L c rest tr (out @ [Prompt])
           else
             (case process_query fuel L c query tr of
                (OutOfFuel, msgs, tr') \<Rightarrow> (OutOfFuel, rest, tr', out @ [Prompt])
              | (Raised e, msgs, tr') \<Rightarrow>
                  if is_Exception e
                  then chat_while k fuel L c rest tr' (out @ [Prompt, Print_error e])
                  else (Raised e, rest, tr', out @ [Prompt])
              | (Returned response, msgs, tr') \<Rightarrow>
                  (case response of
                     None \<Rightarrow>
                       chat_while k fuel L c rest tr' (out @ [Prompt, Print_error TypeError])
                   | Some text \<Rightarrow>
                       chat_while k fuel L c rest tr' (out @ [Prompt, Print_reply text])))))"

definition chat_loop ::
  "nat \<Rightarrow> nat \<Rightarrow> (string \<Rightarrow> exn + json) \<Rightarrow> mcp_client \<Rightarrow> string list \<Rightarrow> event list \<Rightarrow>
   unit outcome \<times> string list \<times> event list \<times> console list" where
  "chat_loop k fuel L c stdin tr = chat_while k fuel L c stdin tr [Print_started, Print_usage]"

subsection \<open>Reading the log and the calls\<close>

text \<open>
  What the theorems read off an event: the exception of a library call that raised, the
  tool and arguments of a \<^verbatim>\<open>call_tool\<close>, the content of the result it returned, and
  the content of a model response that requests no tool (the case in which
  \<^verbatim>\<open>if not tool_calls\<close> returns).
\<close>

fun failure_of :: "event \<Rightarrow> exn option" where
  "failure_of (ListTools (Inl e)) = Some e"
| "failure_of (Create req (Inl e)) = Some e"
| "failure_of (CallTool n a (Inl e)) = Some e"
| "failure_of _ = None"

fun invoked :: "event \<Rightarrow> (string \<times> json) option" where
  "invoked (CallTool n a r) = Some (n, a)"
| "invoked _ = None"

fun result_content :: "event \<Rightarrow> json option" where
  "result_content (CallTool n a (Inr r)) = Some (res_content r)"
| "result_content _ = None"

text \<open>
  The \<^verbatim>\<open>call_tool\<close> that a requested tool call leads to: its name and its parsed
  arguments, when the payload parses.
\<close>

definition requested :: "(string \<Rightarrow> exn + json) \<Rightarrow> tool_call \<Rightarrow> (string \<times> json) option" where
  "requested L tc =
     (case L (fn_arguments (tc_function tc)) of
        Inl e \<Rightarrow> None
      | Inr function_args \<Rightarrow> Some (fn_name (tc_function tc), function_args))"

fun answer_of :: "event \<Rightarrow> string option option" where
  "answer_of (Create req (Inr response)) =
     (case choices response of
        [] \<Rightarrow> None
      | choice0 # _ \<Rightarrow>
          (case cm_tool_calls (message choice0) of
             None \<Rightarrow> Some (cm_content (message choice0))
           | Some [] \<Rightarrow> Some (cm_content (message choice0))
           | Some (tc # tcs) \<Rightarrow> None))"
| "answer_of _ = None"

text \<open>The request of one pass: only \<^verbatim>\<open>messages\<close> changes from pass to pass.\<close>

abbreviation create_request :: "mcp_client \<Rightarrow> available_tool list \<Rightarrow> entry list \<Rightarrow> request" where
  "create_request c ats msgs \<equiv>
     \<lparr>model = azure_deployment_name c, max_tokens = 1500, messages = msgs,
      tools = ats, tool_choice = ''auto''\<rparr>"

text \<open>The events a call added to the log \<open>tr\<close> it started with.\<close>

abbreviation new_events :: "event list \<Rightarrow> 'a \<times> 'b \<times> event list \<Rightarrow> event list" where
  "new_events tr result \<equiv> drop (length tr) (snd (snd result))"

subsection \<open>Example collaborators\<close>

text \<open>
  Concrete libraries for the examples. \<open>loads_example\<close> answers as \<^verbatim>\<open>json.loads\<close>
  does on the two payloads the examples use: \<^verbatim>\<open>{}\<close> is the empty object, and
  \<^verbatim>\<open>{\<close> is not JSON.
\<close>

definition loads_example :: "string \<Rightarrow> exn + json" where
  "loads_example s = (if s = ''{}'' then Inr (JObj []) else Inl JSONDecodeError)"

text \<open>
  A session with one tool, \<^verbatim>\<open>list_issues\<close>. Asked for another tool, the server
  reports the failure in its result, with \<^verbatim>\<open>isError\<close> set.
\<close>

definition issues_tool :: tool where
  "issues_tool = \<lparr>tool_name = ''list_issues'', tool_description = None, inputSchema = JObj []\<rparr>"

definition session_example :: client_session where
  "session_example =
     \<lparr>list_tools = (\<lambda>tr. Inr [issues_tool]),
      call_tool = (\<lambda>tr name args.
         if name = ''list_issues'' then Inr \<lparr>res_content = JNum 3, isError = False\<rparr>
         else Inr \<lparr>res_content = JStr ''unknown tool'', isError = True\<rparr>)\<rparr>"

text \<open>A model that answers in plain text at once.\<close>

definition plain_answer :: completion where
  "plain_answer =
     \<lparr>choices = [\<lparr>message = \<lparr>cm_content = Some ''hello'', cm_tool_calls = None\<rparr>\<rparr>]\<rparr>"

definition client_plain :: mcp_client where
  "client_plain =
     \<lparr>session = Some session_example, azure_deployment_name = ''gpt'',
      openai_create = (\<lambda>tr req. Inr plain_answer)\<rparr>"

text \<open>A client on which \<^verbatim>\<open>connect_to_server\<close> has not run.\<close>

definition client_unconnected :: mcp_client where
  "client_unconnected =
     \<lparr>session = None, azure_deployment_name = ''gpt'',
      openai_create = (\<lambda>tr req. Inr plain_answer)\<rparr>"

text \<open>
  A model that first asks for the tool \<^verbatim>\<open>list_issues\<close> and, once \<^verbatim>\<open>messages\<close> holds
  more than the user entry, answers in plain text.
\<close>

definition issues_call :: tool_call where
  "issues_call =
     \<lparr>tc_id = ''call_1'', tc_function = \<lparr>fn_name = ''list_issues'', fn_arguments = ''{}''\<rparr>\<rparr>"

definition issues_message :: chat_message where
  "issues_message = \<lparr>cm_content = None, cm_tool_calls = Some [issues_call]\<rparr>"

definition tool_request :: completion where
  "tool_request = \<lparr>choices = [\<lparr>message = issues_message\<rparr>]\<rparr>"

definition final_answer :: completion where
  "final_answer =
     \<lparr>choices = [\<lparr>message = \<lparr>cm_content = Some ''There are 3 open issues.'',
                              cm_tool_calls = None\<rparr>\<rparr>]\<rparr>"

definition client_issues :: mcp_client where
  "client_issues =
     \<lparr>session = Some session_example, azure_deployment_name = ''gpt'',
      openai_create = (\<lambda>tr req. if length (messages req) = 1 then Inr tool_request
                                 else Inr final_answer)\<rparr>"

text \<open>The state of that query after its first pass.\<close>

definition issues_messages :: "entry list" where
  "issues_messages =
     [User_dict ''list open issues'', Response_message issues_message,
      Tool_dict \<lparr>tool_call_id = ''call_1'', td_role = ''tool'', td_name = ''list_issues'',
                 td_content = JNum 3\<rparr>]"

definition issues_log :: "event list" where
  "issues_log =
     [ListTools (Inr [issues_tool]),
      Create (create_request client_issues [to_available_tool issues_tool]
                [User_dict ''list open issues'']) (Inr tool_request),
      CallTool ''list_issues'' (JObj []) (Inr \<lparr>res_content = JNum 3, isError = False\<rparr>)]"

text \<open>A model that asks for the tool in every response.\<close>

definition client_looping :: mcp_client where
  "client_looping =
     \<lparr>session = Some session_example, azure_deployment_name = ''gpt'',
      openai_create = (\<lambda>tr req. Inr tool_request)\<rparr>"

text \<open>
  A model whose first response asks for two tool calls, the second with the payload
  \<^verbatim>\<open>{\<close>, which is not JSON.
\<close>

definition bad_call :: tool_call where
  "bad_call =
     \<lparr>tc_id = ''call_2'', tc_function = \<lparr>fn_name = ''list_issues'', fn_arguments = ''{''\<rparr>\<rparr>"

definition malformed_message :: chat_message where
  "malformed_message = \<lparr>cm_content = None, cm_tool_calls = Some [issues_call, bad_call]\<rparr>"

definition malformed_request :: completion where
  "malformed_request = \<lparr>choices = [\<lparr>message = malformed_message\<rparr>]\<rparr>"

definition client_malformed :: mcp_client where
  "client_malformed =
     \<lparr>session = Some session_example, azure_deployment_name = ''gpt'',
      openai_create = (\<lambda>tr req. if length (messages req) = 1 then Inr malformed_request
                                 else Inr final_answer)\<rparr>"

text \<open>
  A session whose server reports a failed run of \<^verbatim>\<open>list_issues\<close> in the result (the
  error flag is set), and whose \<^verbatim>\<open>call_tool\<close> raises for any other tool name, as the
  session library does when the server answers an unknown tool with a protocol error.
  The model's first response asks for \<^verbatim>\<open>list_issues\<close> and then for the unknown tool
  \<^verbatim>\<open>nope\<close>.
\<close>

definition failed_result :: call_tool_result where
  "failed_result = \<lparr>res_content = JStr ''rate limit exceeded'', isError = True\<rparr>"

definition session_reporting :: client_session where
  "session_reporting =
     \<lparr>list_tools = (\<lambda>tr. Inr [issues_tool]),
      call_tool = (\<lambda>tr name args.
         if name = ''list_issues'' then Inr failed_result
         else Inl (OtherException ''McpError''))\<rparr>"

definition unknown_call :: tool_call where
  "unknown_call =
     \<lparr>tc_id = ''call_2'', tc_function = \<lparr>fn_name = ''nope'', fn_arguments = ''{}''\<rparr>\<rparr>"

definition two_calls_message :: chat_message where
  "two_calls_message = \<lparr>cm_content = None, cm_tool_calls = Some [issues_call, unknown_call]\<rparr>"

definition two_calls_request :: completion where
  "two_calls_request = \<lparr>choices = [\<lparr>message = two_calls_message\<rparr>]\<rparr>"

definition client_reporting :: mcp_client where
  "client_reporting =
     \<lparr>session = Some session_reporting, azure_deployment_name = ''gpt'',
      openai_create = (\<lambda>tr req. if length (messages req) = 1 then Inr two_calls_request
                                 else Inr final_answer)\<rparr>"

text \<open>A model API that is down, and one whose call is interrupted from the keyboard.\<close>

definition client_api_down :: mcp_client where
  "client_api_down =
     \<lparr>session = Some session_example, azure_deployment_name = ''gpt'',
      openai_create = (\<lambda>tr req. Inl (OtherException ''APIConnectionError''))\<rparr>"

definition client_interrupted :: mcp_client where
  "client_interrupted =
     \<lparr>session = Some session_example, azure_deployment_name = ''gpt'',
      openai_create = (\<lambda>tr req. Inl (NonException ''KeyboardInterrupt''))\<rparr>"

text \<open>
  A session whose \<^verbatim>\<open>list_issues\<close> answers with the number of tool calls made before
  it, so that the order of the calls shows in the results, and whose \<^verbatim>\<open>call_tool\<close>
  raises for any other tool name. One model asks for \<^verbatim>\<open>list_issues\<close> twice in its first
  response, another asks for it twice and then for the unknown tool \<^verbatim>\<open>nope\<close>.
\<close>

definition session_counting :: client_session where
  "session_counting =
     \<lparr>list_tools = (\<lambda>tr. Inr [issues_tool]),
      call_tool = (\<lambda>tr name args.
         if name = ''list_issues''
         then Inr \<lparr>res_content = JNum (int (length (filter is_CallTool tr))), isError = False\<rparr>
         else Inl (OtherException ''McpError''))\<rparr>"

definition first_call :: tool_call where
  "first_call =
     \<lparr>tc_id = ''call_a'', tc_function = \<lparr>fn_name = ''list_issues'', fn_arguments = ''{}''\<rparr>\<rparr>"

definition second_call :: tool_call where
  "second_call =
     \<lparr>tc_id = ''call_b'', tc_function = \<lparr>fn_name = ''list_issues'', fn_arguments = ''{}''\<rparr>\<rparr>"

definition third_call :: tool_call where
  "third_call =
     \<lparr>tc_id = ''call_c'', tc_function = \<lparr>fn_name = ''nope'', fn_arguments = ''{}''\<rparr>\<rparr>"

definition pair_message :: chat_message where
  "pair_message = \<lparr>cm_content = None, cm_tool_calls = Some [first_call, second_call]\<rparr>"

definition pair_request :: completion where
  "pair_request = \<lparr>choices = [\<lparr>message = pair_message\<rparr>]\<rparr>"

definition client_pair :: mcp_client where
  "client_pair =
     \<lparr>session = Some session_counting, azure_deployment_name = ''gpt'',
      openai_create = (\<lambda>tr req. if length (messages req) = 1 then Inr pair_request
                                 else Inr final_answer)\<rparr>"

definition triple_message :: chat_message where
  "triple_message =
     \<lparr>cm_content = None, cm_tool_calls = Some [first_call, second_call, third_call]\<rparr>"

definition triple_request :: completion where
  "triple_request = \<lparr>choices = [\<lparr>message = triple_message\<rparr>]\<rparr>"

definition client_triple :: mcp_client where
  "client_triple =
     \<lparr>session = Some session_counting, azure_deployment_name = ''gpt'',
      openai_create = (\<lambda>tr req. if length (messages req) = 1 then Inr triple_request
                                 else Inr final_answer)\<rparr>"

text \<open>
  A model that asks once for \<^verbatim>\<open>list_issues\<close> on the session whose server reports the
  run as failed, and then answers.
\<close>

definition client_flagged :: mcp_client where
  "client_flagged =
     \<lparr>session = Some session_reporting, azure_deployment_name = ''gpt'',
      openai_create = (\<lambda>tr req. if length (messages req) = 1 then Inr tool_request
                                 else Inr final_answer)\<rparr>"

text \<open>A connected session whose \<^verbatim>\<open>list_tools\<close> raises \<open>AttributeError\<close> itself.\<close>

definition session_broken :: client_session where
  "session_broken =
     \<lparr>list_tools = (\<lambda>tr. Inl AttributeError),
      call_tool = (\<lambda>tr name args. Inl AttributeError)\<rparr>"

definition client_tools_broken :: mcp_client where
  "client_tools_broken =
     \<lparr>session = Some session_broken, azure_deployment_name = ''gpt'',
      openai_create = (\<lambda>tr req. Inr plain_answer)\<rparr>"

section \<open>Properties\<close>

subsection \<open>The tool-call loop\<close>

lemma for_tool_calls_log:
  "for_tool_calls L sess tcs acc tr = (res, tr') \<Longrightarrow>
   \<exists>evs. tr' = tr @ evs \<and> (\<forall>ev\<in>set evs. is_CallTool ev) \<and>
         prefix (map invoked evs) (map (requested L) tcs) \<and>
         (\<forall>ev\<in>set evs. \<forall>e. failure_of ev = Some e \<longrightarrow> res = Inl e)"
proof (induction tcs arbitrary: acc tr)
  case Nil
  then show ?case by simp
next
  case (Cons tc rest)
  show ?case
  proof (cases "L (fn_arguments (tc_function tc))")
    case (Inl e)
    with Cons.prems show ?thesis by simp
  next
    case (Inr args)
    let ?n = "fn_name (tc_function tc)"
    let ?ev = "CallTool ?n args (call_tool sess tr ?n args)"
    show ?thesis
    proof (cases "call_tool sess tr ?n args")
      case (Inl e)
      with Inr Cons.prems have "tr' = tr @ [?ev]" "res = Inl e"
        by (simp_all add: Let_def)
      moreover have "requested L tc = Some (?n, args)"
        using Inr by (simp add: requested_def)
      ultimately show ?thesis using Inl
        by (intro exI [of _ "[?ev]"]) simp
    next
      case r: (Inr result)
      let ?acc = "acc @ [\<lparr>tool_call_id = tc_id tc, td_role = ''tool'', td_name = ?n,
                      td_content = res_content result\<rparr>]"
      from Inr r Cons.prems
      have "for_tool_calls L sess rest ?acc (tr @ [?ev]) = (res, tr')"
        by (simp add: Let_def)
      from Cons.IH [OF this] obtain evs where
        evs: "tr' = (tr @ [?ev]) @ evs" "\<forall>ev\<in>set evs. is_CallTool ev"
          "prefix (map invoked evs) (map (requested L) rest)"
          "\<forall>ev\<in>set evs. \<forall>e. failure_of ev = Some e \<longrightarrow> res = Inl e"
        by blast
      moreover have "requested L tc = Some (?n, args)"
        using Inr by (simp add: requested_def)
      ultimately show ?thesis using r
        by (intro exI [of _ "?ev # evs"]) simp
    qed
  qed
qed

lemma for_tool_calls_results:
  "for_tool_calls L sess tcs acc tr = (Inr rs, tr') \<Longrightarrow>
   \<exists>new evs. rs = acc @ new \<and> tr' = tr @ evs \<and> length evs = length tcs \<and>
     map invoked evs = map (requested L) tcs \<and>
     map tool_call_id new = map tc_id tcs \<and>
     map td_name new = map (\<lambda>tc. fn_name (tc_function tc)) tcs \<and>
     map td_role new = map (\<lambda>tc. ''tool'') tcs \<and>
     map (\<lambda>d. Some (td_content d)) new = map result_content evs"
proof (induction tcs arbitrary: acc tr)
  case Nil
  then show ?case by simp
next
  case (Cons tc rest)
  show ?case
  proof (cases "L (fn_arguments (tc_function tc))")
    case (Inl e)
    with Cons.prems show ?thesis by simp
  next
    case (Inr args)
    let ?n = "fn_name (tc_function tc)"
    let ?ev = "CallTool ?n args (call_tool sess tr ?n args)"
    show ?thesis
    proof (cases "call_tool sess tr ?n args")
      case (Inl e)
      with Inr Cons.prems show ?thesis by (simp add: Let_def)
    next
      case r: (Inr result)
      let ?d = "\<lparr>tool_call_id = tc_id tc, td_role = ''tool'', td_name = ?n,
                      td_content = res_content result\<rparr>"
      from Inr r Cons.prems
      have "for_tool_calls L sess rest (acc @ [?d]) (tr @ [?ev]) = (Inr rs, tr')"
        by (simp add: Let_def)
      from Cons.IH [OF this] obtain new evs where
        "rs = (acc @ [?d]) @ new" "tr' = (tr @ [?ev]) @ evs" "length evs = length rest"
        "map invoked evs = map (requested L) rest"
        "map tool_call_id new = map tc_id rest"
        "map td_name new = map (\<lambda>tc. fn_name (tc_function tc)) rest"
        "map td_role new = map (\<lambda>tc. ''tool'') rest"
        "map (\<lambda>d. Some (td_content d)) new = map result_content evs"
        by blast
      moreover have "requested L tc = Some (?n, args)"
        using Inr by (simp add: requested_def)
      ultimately show ?thesis using r
        by (intro exI [of _ "?d # new"] exI [of _ "?ev # evs"]) simp
    qed
  qed
qed

lemma for_tool_calls_trace:
  "for_tool_calls L sess tcs acc tr = (res, tr') \<Longrightarrow>
   \<exists>evs. tr' = tr @ evs \<and> length evs \<le> length tcs \<and>
     (\<forall>i<length evs. \<exists>a. L (fn_arguments (tc_function (tcs ! i))) = Inr a \<and>
        evs ! i = CallTool (fn_name (tc_function (tcs ! i))) a
                    (call_tool sess (tr @ take i evs) (fn_name (tc_function (tcs ! i))) a)) \<and>
     (\<forall>i. Suc i < length evs \<longrightarrow> failure_of (evs ! i) = None) \<and>
     (case res of
        Inr rs \<Rightarrow> length evs = length tcs \<and> (\<forall>ev\<in>set evs. failure_of ev = None)
      | Inl e \<Rightarrow>
          (length evs < length tcs \<and> (\<forall>ev\<in>set evs. failure_of ev = None) \<and>
           L (fn_arguments (tc_function (tcs ! length evs))) = Inl e) \<or>
          (evs \<noteq> [] \<and> failure_of (last evs) = Some e))"
proof (induction tcs arbitrary: acc tr)
  case Nil
  then show ?case by auto
next
  case (Cons tc rest)
  show ?case
  proof (cases "L (fn_arguments (tc_function tc))")
    case (Inl e)
    with Cons.prems show ?thesis by (intro exI [of _ "[]"]) auto
  next
    case (Inr a)
    let ?n = "fn_name (tc_function tc)"
    let ?ev = "CallTool ?n a (call_tool sess tr ?n a)"
    show ?thesis
    proof (cases "call_tool sess tr ?n a")
      case (Inl e)
      with Inr Cons.prems have "tr' = tr @ [?ev]" "res = Inl e"
        by (simp_all add: Let_def)
      then show ?thesis using Inl Inr
        by (intro exI [of _ "[?ev]"]) simp
    next
      case r: (Inr result)
      let ?acc = "acc @ [\<lparr>tool_call_id = tc_id tc, td_role = ''tool'', td_name = ?n,
                      td_content = res_content result\<rparr>]"
      from Inr r Cons.prems
      have "for_tool_calls L sess rest ?acc (tr @ [?ev]) = (res, tr')"
        by (simp add: Let_def)
      from Cons.IH [OF this] obtain evs where
        tr': "tr' = (tr @ [?ev]) @ evs" and len: "length evs \<le> length rest" and
        each: "\<forall>i<length evs. \<exists>a. L (fn_arguments (tc_function (rest ! i))) = Inr a \<and>
          evs ! i = CallTool (fn_name (tc_function (rest ! i))) a
            (call_tool sess ((tr @ [?ev]) @ take i evs) (fn_name (tc_function (rest ! i))) a)" and
        before: "\<forall>i. Suc i < length evs \<longrightarrow> failure_of (evs ! i) = None" and
        fin: "case res of
            Inr rs \<Rightarrow> length evs = length rest \<and> (\<forall>ev\<in>set evs. failure_of ev = None)
          | Inl e \<Rightarrow>
              (length evs < length rest \<and> (\<forall>ev\<in>set evs. failure_of ev = None) \<and>
               L (fn_arguments (tc_function (rest ! length evs))) = Inl e) \<or>
              (evs \<noteq> [] \<and> failure_of (last evs) = Some e)"
        by blast
      have ok: "failure_of ?ev = None" using r by simp
      have each': "\<exists>a. L (fn_arguments (tc_function ((tc # rest) ! i))) = Inr a \<and>
          (?ev # evs) ! i = CallTool (fn_name (tc_function ((tc # rest) ! i))) a
            (call_tool sess (tr @ take i (?ev # evs)) (fn_name (tc_function ((tc # rest) ! i))) a)"
        if "i < length (?ev # evs)" for i
      proof (cases i)
        case 0
        then show ?thesis using Inr by simp
      next
        case (Suc j)
        with that have "j < length evs" by simp
        with each Suc show ?thesis by simp
      qed
      have before': "failure_of ((?ev # evs) ! i) = None" if "Suc i < length (?ev # evs)" for i
      proof (cases i)
        case 0
        then show ?thesis using ok by simp
      next
        case (Suc j)
        with that before show ?thesis by simp
      qed
      have fin': "case res of
            Inr rs \<Rightarrow> length (?ev # evs) = length (tc # rest) \<and>
                      (\<forall>ev\<in>set (?ev # evs). failure_of ev = None)
          | Inl e \<Rightarrow>
              (length (?ev # evs) < length (tc # rest) \<and>
               (\<forall>ev\<in>set (?ev # evs). failure_of ev = None) \<and>
               L (fn_arguments (tc_function ((tc # rest) ! length (?ev # evs)))) = Inl e) \<or>
              (?ev # evs \<noteq> [] \<and> failure_of (last (?ev # evs)) = Some e)"
        using fin ok by (cases res) auto
      show ?thesis
        using tr' len each' before' fin'
        by (intro exI [of _ "?ev # evs"]) simp
    qed
  qed
qed

lemma for_tool_calls_append:
  "for_tool_calls L sess (pre @ post) acc tr =
     (case for_tool_calls L sess pre acc tr of
        (Inl e, t) \<Rightarrow> (Inl e, t)
      | (Inr rs, t) \<Rightarrow> for_tool_calls L sess post rs t)"
  by (induction pre arbitrary: acc tr) (auto simp add: Let_def split: sum.splits)

subsection \<open>The passes of \<^verbatim>\<open>while True\<close>\<close>

lemma loop_body_cases:
  obtains
    (api_raises) e where
      "openai_create c tr (create_request c ats msgs) = Inl e"
      "loop_body L c sess ats msgs tr = (Raise e, msgs, tr @ [Create (create_request c ats msgs) (Inl e)])"
  | (no_choice) response where
      "openai_create c tr (create_request c ats msgs) = Inr response" "choices response = []"
      "loop_body L c sess ats msgs tr = (Raise IndexError, msgs, tr @ [Create (create_request c ats msgs) (Inr response)])"
  | (answer) response ch chs where
      "openai_create c tr (create_request c ats msgs) = Inr response" "choices response = ch # chs"
      "cm_tool_calls (message ch) = None \<or> cm_tool_calls (message ch) = Some []"
      "loop_body L c sess ats msgs tr =
         (Return (cm_content (message ch)), msgs, tr @ [Create (create_request c ats msgs) (Inr response)])"
  | (tool_raises) response ch chs tc tcs e tr2 where
      "openai_create c tr (create_request c ats msgs) = Inr response" "choices response = ch # chs"
      "cm_tool_calls (message ch) = Some (tc # tcs)"
      "for_tool_calls L sess (tc # tcs) [] (tr @ [Create (create_request c ats msgs) (Inr response)]) = (Inl e, tr2)"
      "loop_body L c sess ats msgs tr = (Raise e, msgs @ [Response_message (message ch)], tr2)"
  | (tools_done) response ch chs tc tcs rs tr2 where
      "openai_create c tr (create_request c ats msgs) = Inr response" "choices response = ch # chs"
      "cm_tool_calls (message ch) = Some (tc # tcs)"
      "for_tool_calls L sess (tc # tcs) [] (tr @ [Create (create_request c ats msgs) (Inr response)]) = (Inr rs, tr2)"
      "loop_body L c sess ats msgs tr =
         (Continue, msgs @ Response_message (message ch) # map Tool_dict rs, tr2)"
proof (cases "openai_create c tr (create_request c ats msgs)")
  case (Inl e)
  then show ?thesis using api_raises [of e]
    by (simp add: loop_body_def Let_def)
next
  case (Inr response)
  show ?thesis
  proof (cases "choices response")
    case Nil
    then show ?thesis using Inr no_choice [of response]
      by (simp add: loop_body_def Let_def)
  next
    case (Cons ch chs)
    show ?thesis
    proof (cases "cm_tool_calls (message ch)")
      case None
      then show ?thesis using Inr Cons answer [of response ch chs]
        by (simp add: loop_body_def Let_def)
    next
      case (Some calls)
      show ?thesis
      proof (cases calls)
        case Nil
        then show ?thesis using Inr Cons Some answer [of response ch chs]
          by (simp add: loop_body_def Let_def)
      next
        case calls: (Cons tc tcs)
        obtain res tr2 where
          f: "for_tool_calls L sess (tc # tcs) [] (tr @ [Create (create_request c ats msgs) (Inr response)]) = (res, tr2)"
          by (cases "for_tool_calls L sess (tc # tcs) [] (tr @ [Create (create_request c ats msgs) (Inr response)])")
        show ?thesis
        proof (cases res)
          case (Inl e)
          have "loop_body L c sess ats msgs tr =
              (Raise e, msgs @ [Response_message (message ch)], tr2)"
            using Inr Cons Some calls f Inl
            by (simp add: loop_body_def Let_def del: for_tool_calls.simps)
          then show ?thesis
            using tool_raises [of response ch chs tc tcs e tr2] Inr Cons Some calls f Inl
            by simp
        next
          case r: (Inr rs)
          have "loop_body L c sess ats msgs tr =
              (Continue, msgs @ Response_message (message ch) # map Tool_dict rs, tr2)"
            using Inr Cons Some calls f r
            by (simp add: loop_body_def Let_def del: for_tool_calls.simps)
          then show ?thesis
            using tools_done [of response ch chs tc tcs rs tr2] Inr Cons Some calls f r
            by simp
        qed
      qed
    qed
  qed
qed

lemma while_True_add:
  "while_True (a + b) L c sess ats msgs tr =
     (case while_True a L c sess ats msgs tr of
        (OutOfFuel, m, t) \<Rightarrow> while_True b L c sess ats m t
      | (Returned x, m, t) \<Rightarrow> (Returned x, m, t)
      | (Raised e, m, t) \<Rightarrow> (Raised e, m, t))"
proof (induction a arbitrary: msgs tr)
  case 0
  then show ?case by simp
next
  case (Suc a)
  obtain fl m t where lb: "loop_body L c sess ats msgs tr = (fl, m, t)"
    by (cases "loop_body L c sess ats msgs tr")
  show ?case
    using lb Suc.IH [of m t] by (cases fl) simp_all
qed

lemma is_CallTool_facts:
  "is_CallTool ev \<Longrightarrow> answer_of ev = None \<and> \<not> is_ListTools ev \<and> \<not> is_Create ev"
  by (cases ev) simp_all

lemma loop_body_log:
  assumes "loop_body L c sess ats msgs tr = (fl, msgs', tr')"
  shows "\<exists>evs. tr' = tr @ Create (create_request c ats msgs)
                          (openai_create c tr (create_request c ats msgs)) # evs \<and>
           (\<forall>ev\<in>set evs. is_CallTool ev) \<and>
           (\<forall>ev\<in>set (Create (create_request c ats msgs)
                          (openai_create c tr (create_request c ats msgs)) # evs).
              \<forall>e. failure_of ev = Some e \<longrightarrow> fl = Raise e) \<and>
           (\<forall>x. fl = Return x \<longleftrightarrow>
              answer_of (Create (create_request c ats msgs)
                          (openai_create c tr (create_request c ats msgs))) = Some x) \<and>
           prefix msgs msgs'"
proof (cases rule: loop_body_cases [where L = L and c = c and sess = sess and ats = ats and msgs = msgs and tr = tr])
  case (api_raises e)
  with assms show ?thesis by auto
next
  case (no_choice response)
  with assms show ?thesis by auto
next
  case (answer response ch chs)
  with assms show ?thesis by auto
next
  case (tool_raises response ch chs tc tcs e tr2)
  from for_tool_calls_log [OF tool_raises(4)] obtain evs where
    "tr2 = (tr @ [Create (create_request c ats msgs) (Inr response)]) @ evs"
    "\<forall>ev\<in>set evs. is_CallTool ev"
    "\<forall>ev\<in>set evs. \<forall>e'. failure_of ev = Some e' \<longrightarrow> (Inl e :: exn + tool_dict list) = Inl e'"
    by blast
  with assms tool_raises(1,2,3,5) show ?thesis
    by (intro exI [of _ evs]) auto
next
  case (tools_done response ch chs tc tcs rs tr2)
  from for_tool_calls_log [OF tools_done(4)] obtain evs where
    "tr2 = (tr @ [Create (create_request c ats msgs) (Inr response)]) @ evs"
    "\<forall>ev\<in>set evs. is_CallTool ev"
    "\<forall>ev\<in>set evs. \<forall>e'. failure_of ev = Some e' \<longrightarrow> (Inr rs :: exn + tool_dict list) = Inl e'"
    by blast
  with assms tools_done(1,2,3,5) show ?thesis
    by (intro exI [of _ evs]) auto
qed

lemma while_True_log:
  "while_True n L c sess ats msgs tr = (res, msgs', tr') \<Longrightarrow>
   \<exists>evs. tr' = tr @ evs \<and>
     (\<forall>ev\<in>set evs. \<not> is_ListTools ev) \<and>
     (\<forall>ev\<in>set evs. \<forall>req r. ev = Create req r \<longrightarrow> req = create_request c ats (messages req)) \<and>
     (\<forall>ev\<in>set evs. \<forall>e. failure_of ev = Some e \<longrightarrow> res = Raised e) \<and>
     (\<forall>x. res = Returned x \<longleftrightarrow> (\<exists>ev\<in>set evs. answer_of ev = Some x)) \<and>
     prefix msgs msgs'"
proof (induction n arbitrary: msgs tr)
  case 0
  then show ?case by simp
next
  case (Suc n)
  obtain fl m t where lb: "loop_body L c sess ats msgs tr = (fl, m, t)"
    by (cases "loop_body L c sess ats msgs tr")
  let ?ev = "Create (create_request c ats msgs) (openai_create c tr (create_request c ats msgs))"
  from loop_body_log [OF lb] obtain evs where
    t: "t = tr @ ?ev # evs" and
    calls: "\<forall>ev\<in>set evs. is_CallTool ev" and
    fails: "\<forall>ev\<in>set (?ev # evs). \<forall>e. failure_of ev = Some e \<longrightarrow> fl = Raise e" and
    ans: "\<forall>x. fl = Return x \<longleftrightarrow> answer_of ?ev = Some x" and
    pre: "prefix msgs m"
    by blast
  have calls': "\<forall>ev\<in>set evs. answer_of ev = None \<and> \<not> is_ListTools ev \<and> \<not> is_Create ev"
    using calls is_CallTool_facts by blast
  show ?case
  proof (cases fl)
    case (Return x)
    with lb Suc.prems have "res = Returned x" "msgs' = m" "tr' = t" by simp_all
    then show ?thesis using t calls' fails ans pre Return
      by (intro exI [of _ "?ev # evs"]) auto
  next
    case (Raise e)
    with lb Suc.prems have "res = Raised e" "msgs' = m" "tr' = t" by simp_all
    then show ?thesis using t calls' fails ans pre Raise
      by (intro exI [of _ "?ev # evs"]) auto
  next
    case Continue
    with lb Suc.prems have "while_True n L c sess ats m t = (res, msgs', tr')" by simp
    from Suc.IH [OF this] obtain evs' where
      "tr' = t @ evs'"
      "\<forall>ev\<in>set evs'. \<not> is_ListTools ev"
      "\<forall>ev\<in>set evs'. \<forall>req r. ev = Create req r \<longrightarrow> req = create_request c ats (messages req)"
      "\<forall>ev\<in>set evs'. \<forall>e. failure_of ev = Some e \<longrightarrow> res = Raised e"
      "\<forall>x. res = Returned x \<longleftrightarrow> (\<exists>ev\<in>set evs'. answer_of ev = Some x)"
      "prefix m msgs'"
      by blast
    then show ?thesis using t calls' fails ans pre Continue
      by (intro exI [of _ "?ev # evs @ evs'"]) (auto dest: prefix_order.trans)
  qed
qed

lemma process_query_log:
  assumes "process_query n L c q tr = (res, msgs', tr')"
  shows "\<exists>evs. tr' = tr @ evs \<and>
     (\<forall>ev\<in>set evs. \<forall>req r. ev = Create req r \<longrightarrow>
        max_tokens req = 1500 \<and> tool_choice req = ''auto'' \<and> model req = azure_deployment_name c) \<and>
     (\<forall>ev\<in>set evs. \<forall>e. failure_of ev = Some e \<longrightarrow> res = Raised e) \<and>
     (\<forall>x. res = Returned x \<longleftrightarrow> (\<exists>ev\<in>set evs. answer_of ev = Some x)) \<and>
     prefix [User_dict q] msgs'"
proof (cases "session c")
  case None
  with assms show ?thesis by (auto simp add: process_query_def Let_def)
next
  case (Some sess)
  show ?thesis
  proof (cases "list_tools sess tr")
    case (Inl e)
    with Some assms have "res = Raised e" "msgs' = [User_dict q]" "tr' = tr @ [ListTools (Inl e)]"
      by (simp_all add: process_query_def Let_def)
    then show ?thesis by simp
  next
    case (Inr ts)
    let ?ats = "map to_available_tool ts"
    from Some Inr assms
    have "while_True n L c sess ?ats [User_dict q] (tr @ [ListTools (Inr ts)]) = (res, msgs', tr')"
      by (simp add: process_query_def Let_def)
    from while_True_log [OF this] obtain evs where
      "tr' = (tr @ [ListTools (Inr ts)]) @ evs"
      "\<forall>ev\<in>set evs. \<forall>req r. ev = Create req r \<longrightarrow> req = create_request c ?ats (messages req)"
      "\<forall>ev\<in>set evs. \<forall>e. failure_of ev = Some e \<longrightarrow> res = Raised e"
      "\<forall>x. res = Returned x \<longleftrightarrow> (\<exists>ev\<in>set evs. answer_of ev = Some x)"
      "prefix [User_dict q] msgs'"
      by blast
    then show ?thesis
      by (intro exI [of _ "ListTools (Inr ts) # evs"]) (simp, metis request.select_convs(1,2,5))
  qed
qed

lemma loop_body_Continue:
  assumes "loop_body L c sess ats msgs tr = (Continue, msgs', tr')"
  shows "\<exists>response ch chs tc tcs rs.
     openai_create c tr (create_request c ats msgs) = Inr response \<and>
     choices response = ch # chs \<and>
     cm_tool_calls (message ch) = Some (tc # tcs) \<and>
     for_tool_calls L sess (tc # tcs) [] (tr @ [Create (create_request c ats msgs) (Inr response)])
       = (Inr rs, tr') \<and>
     msgs' = msgs @ Response_message (message ch) # map Tool_dict rs"
  by (cases rule: loop_body_cases [where L = L and c = c and sess = sess and ats = ats
        and msgs = msgs and tr = tr]) (use assms in auto)

lemma while_True_one:
  "while_True (Suc 0) L c sess ats msgs tr =
     (case loop_body L c sess ats msgs tr of
        (Return answer, m, t) \<Rightarrow> (Returned answer, m, t)
      | (Raise e, m, t) \<Rightarrow> (Raised e, m, t)
      | (Continue, m, t) \<Rightarrow> (OutOfFuel, m, t))"
  by (simp split: prod.splits flow.splits)

lemma while_True_Suc_end:
  assumes "while_True k L c sess ats msgs tr = (res, m, t)"
  shows "while_True (Suc k) L c sess ats msgs tr =
     (case res of
        OutOfFuel \<Rightarrow>
          (case loop_body L c sess ats m t of
             (Return answer, m', t') \<Rightarrow> (Returned answer, m', t')
           | (Raise e, m', t') \<Rightarrow> (Raised e, m', t')
           | (Continue, m', t') \<Rightarrow> (OutOfFuel, m', t'))
      | Returned x \<Rightarrow> (Returned x, m, t)
      | Raised e \<Rightarrow> (Raised e, m, t))"
proof -
  have "while_True (k + Suc 0) L c sess ats msgs tr =
     (case while_True k L c sess ats msgs tr of
        (OutOfFuel, m, t) \<Rightarrow> while_True (Suc 0) L c sess ats m t
      | (Returned x, m, t) \<Rightarrow> (Returned x, m, t)
      | (Raised e, m, t) \<Rightarrow> (Raised e, m, t))"
    by (rule while_True_add)
  then show ?thesis
    using assms by (cases res) (simp_all del: while_True.simps add: while_True_one)
qed

lemma while_True_prefix:
  "prefix msgs (fst (snd (while_True n L c sess ats msgs tr)))"
proof -
  obtain res m t where w: "while_True n L c sess ats msgs tr = (res, m, t)"
    by (cases "while_True n L c sess ats msgs tr")
  from while_True_log [OF w] show ?thesis using w by auto
qed

lemma while_True_add_prefix:
  "prefix (fst (snd (while_True n L c sess ats msgs tr)))
          (fst (snd (while_True (n + k) L c sess ats msgs tr)))"
proof -
  obtain res m t where w: "while_True n L c sess ats msgs tr = (res, m, t)"
    by (cases "while_True n L c sess ats msgs tr")
  show ?thesis
    using w while_True_prefix [of m k L c sess ats t]
    by (cases res) (simp_all add: while_True_add)
qed

lemma while_True_grows:
  assumes "fst (while_True (Suc n) L c sess ats msgs tr) = OutOfFuel"
  shows "length (fst (snd (while_True n L c sess ats msgs tr))) + 2
           \<le> length (fst (snd (while_True (Suc n) L c sess ats msgs tr)))"
proof -
  obtain res m t where w: "while_True n L c sess ats msgs tr = (res, m, t)"
    by (cases "while_True n L c sess ats msgs tr")
  obtain fl m' t' where lb: "loop_body L c sess ats m t = (fl, m', t')"
    by (cases "loop_body L c sess ats m t")
  note step = while_True_Suc_end [OF w]
  from assms have res: "res = OutOfFuel"
    unfolding step by (cases res) simp_all
  from assms have fl: "fl = Continue"
    unfolding step res using lb by (cases fl) simp_all
  from loop_body_Continue [OF lb [unfolded fl]] obtain response ch chs tc tcs rs where
    all: "openai_create c t (create_request c ats m) = Inr response \<and>
       choices response = ch # chs \<and>
       cm_tool_calls (message ch) = Some (tc # tcs) \<and>
       for_tool_calls L sess (tc # tcs) [] (t @ [Create (create_request c ats m) (Inr response)])
         = (Inr rs, t') \<and>
       m' = m @ Response_message (message ch) # map Tool_dict rs"
    by (elim exE) (rule that)
  have
    f: "for_tool_calls L sess (tc # tcs) [] (t @ [Create (create_request c ats m) (Inr response)])
       = (Inr rs, t')" and
    m': "m' = m @ Response_message (message ch) # map Tool_dict rs"
    using all by (simp_all del: for_tool_calls.simps)
  from for_tool_calls_results [OF f] have "length rs = length (tc # tcs)"
    by (metis append_Nil length_map)
  with m' have "length m + 2 \<le> length m'" by simp
  then show ?thesis
    unfolding step res using w lb fl by simp
qed

lemma for_tool_calls_succeeds:
  assumes "\<forall>tc\<in>set tcs. \<exists>a. L (fn_arguments (tc_function tc)) = Inr a"
    and "\<forall>t name a. \<exists>r. call_tool sess t name a = Inr r"
  shows "\<exists>rs tr'. for_tool_calls L sess tcs acc tr = (Inr rs, tr')"
  using assms(1)
proof (induction tcs arbitrary: acc tr)
  case Nil
  then show ?case by simp
next
  case (Cons tc rest)
  from Cons.prems obtain a where a: "L (fn_arguments (tc_function tc)) = Inr a"
    by auto
  from assms(2) obtain r where r: "call_tool sess tr (fn_name (tc_function tc)) a = Inr r"
    by blast
  from Cons.prems have "\<forall>tc\<in>set rest. \<exists>a. L (fn_arguments (tc_function tc)) = Inr a"
    by simp
  from Cons.IH [OF this] show ?case
    using a r by (simp add: Let_def)
qed

lemma while_True_never_returns:
  assumes "\<forall>t req response ch chs. openai_create c t req = Inr response \<longrightarrow>
             choices response = ch # chs \<longrightarrow> (\<exists>tc tcs. cm_tool_calls (message ch) = Some (tc # tcs))"
  shows "fst (while_True n L c sess ats msgs tr) \<noteq> Returned y"
proof (induction n arbitrary: msgs tr)
  case 0
  then show ?case by simp
next
  case (Suc n)
  show ?case
  proof (cases rule: loop_body_cases [where L = L and c = c and sess = sess and ats = ats
        and msgs = msgs and tr = tr])
    case (api_raises e)
    then show ?thesis by simp
  next
    case (no_choice response)
    then show ?thesis by simp
  next
    case (answer response ch chs)
    with assms have False by (metis option.inject option.distinct(1) list.distinct(1))
    then show ?thesis ..
  next
    case (tool_raises response ch chs tc tcs e tr2)
    then show ?thesis by simp
  next
    case (tools_done response ch chs tc tcs rs tr2)
    then show ?thesis using Suc.IH by simp
  qed
qed

lemma while_True_runs_on:
  assumes calls: "\<forall>t name a. \<exists>r. call_tool sess t name a = Inr r"
    and api: "\<forall>t req. \<exists>response ch chs tc tcs.
        openai_create c t req = Inr response \<and> choices response = ch # chs \<and>
        cm_tool_calls (message ch) = Some (tc # tcs) \<and>
        (\<forall>tc'\<in>set (tc # tcs). \<exists>a. L (fn_arguments (tc_function tc')) = Inr a)"
  shows "\<exists>m t. while_True n L c sess ats msgs tr = (OutOfFuel, m, t) \<and>
           length (filter is_Create (drop (length tr) t)) = n"
proof (induction n arbitrary: msgs tr)
  case 0
  then show ?case by simp
next
  case (Suc n)
  let ?req = "create_request c ats msgs"
  from api obtain response ch chs tc tcs where
    r: "openai_create c tr ?req = Inr response" "choices response = ch # chs"
       "cm_tool_calls (message ch) = Some (tc # tcs)" and
    p: "\<forall>tc'\<in>set (tc # tcs). \<exists>a. L (fn_arguments (tc_function tc')) = Inr a"
    by metis
  from for_tool_calls_succeeds [OF p calls] obtain rs tr2 where
    f: "for_tool_calls L sess (tc # tcs) [] (tr @ [Create ?req (Inr response)]) = (Inr rs, tr2)"
    by blast
  have lb: "loop_body L c sess ats msgs tr =
      (Continue, msgs @ Response_message (message ch) # map Tool_dict rs, tr2)"
    using r f by (simp add: loop_body_def Let_def del: for_tool_calls.simps)
  from for_tool_calls_log [OF f] obtain evs where
    evs: "tr2 = (tr @ [Create ?req (Inr response)]) @ evs" "\<forall>ev\<in>set evs. is_CallTool ev"
    by blast
  from Suc.IH [of "msgs @ Response_message (message ch) # map Tool_dict rs" tr2]
  obtain m t where
    w: "while_True n L c sess ats (msgs @ Response_message (message ch) # map Tool_dict rs) tr2
          = (OutOfFuel, m, t)" and
    n: "length (filter is_Create (drop (length tr2) t)) = n"
    by blast
  from while_True_log [OF w] obtain evs' where evs': "t = tr2 @ evs'"
    by blast
  have "filter is_Create evs = []"
    using evs(2) is_CallTool_facts by (auto simp add: filter_empty_conv)
  with evs evs' n have "length (filter is_Create (drop (length tr) t)) = Suc n"
    by simp
  with lb w show ?case by simp
qed

lemma chat_while_no_Exception:
  "fst (chat_while k fuel L c stdin tr out) = Raised e \<Longrightarrow> \<not> is_Exception e"
proof (induction k arbitrary: stdin tr out)
  case 0
  then show ?case by simp
next
  case (Suc k)
  show ?case
  proof (cases stdin)
    case Nil
    with Suc show ?thesis by simp
  next
    case (Cons line rest)
    obtain res msgs tr' where pq: "process_query fuel L c (strip line) tr = (res, msgs, tr')"
      by (cases "process_query fuel L c (strip line) tr")
    show ?thesis
    proof (cases "lower (strip line) = ''quit'' \<or> strip line = []")
      case True
      with Suc Cons show ?thesis by (auto simp add: Let_def split: if_splits)
    next
      case False
      with Suc.prems Cons pq show ?thesis
        using Suc.IH
        by (cases res) (auto simp add: Let_def split: if_splits option.splits)
    qed
  qed
qed

lemma chat_while_unconnected:"session c = None \<Longrightarrow>
   fst (snd (snd (chat_while k fuel L c stdin tr out))) = tr \<and>
   (\<forall>e. fst (chat_while k fuel L c stdin tr out) \<noteq> Raised e)"
proof (induction k arbitrary: stdin out)
  case 0
  then show ?case by simp
next
  case (Suc k)
  have pq: "process_query fuel L c q tr = (Raised AttributeError, [User_dict q], tr)" for q
    using Suc.prems by (simp add: process_query_def Let_def)
  show ?case
  proof (cases stdin)
    case Nil
    then show ?thesis using Suc.IH [OF Suc.prems] by simp
  next
    case (Cons line rest)
    then show ?thesis
      using Suc.IH [OF Suc.prems] pq by (simp add: Let_def)
  qed
qed

subsection \<open>The example query, pass by pass\<close>

lemma issues_run_1:
  "process_query (Suc 0) loads_example client_issues ''list open issues'' [] =
     (OutOfFuel, issues_messages, issues_log)"
  by (simp add: process_query_def client_issues_def session_example_def loop_body_def
      tool_request_def issues_message_def issues_call_def loads_example_def Let_def
      issues_messages_def issues_log_def)

lemma issues_run_2:
  "process_query (Suc (Suc 0)) loads_example client_issues ''list open issues'' [] =
     (Returned (Some ''There are 3 open issues.''), issues_messages,
      issues_log @
        [Create (create_request client_issues [to_available_tool issues_tool] issues_messages)
           (Inr final_answer)])"
  by (simp add: process_query_def client_issues_def session_example_def loop_body_def
      tool_request_def issues_message_def issues_call_def loads_example_def Let_def
      issues_messages_def issues_log_def final_answer_def)

subsection \<open>One pass of the loop\<close>

lemma loop_body_plain:
  assumes "openai_create c tr
             \<lparr>model = azure_deployment_name c, max_tokens = 1500, messages = msgs,
              tools = ats, tool_choice = ''auto''\<rparr> = Inr response"
    and "choices response = ch # chs"
    and "cm_tool_calls (message ch) = None \<or> cm_tool_calls (message ch) = Some []"
  shows "loop_body L c sess ats msgs tr =
           (Return (cm_content (message ch)), msgs,
            tr @ [Create \<lparr>model = azure_deployment_name c, max_tokens = 1500, messages = msgs,
                          tools = ats, tool_choice = ''auto''\<rparr> (Inr response)])"
  using assms by (auto simp add: loop_body_def Let_def)

subsection \<open>A session that was never connected\<close>

text \<open>
  Claim C9, as stated, at a concrete input. The client has no error kind for a session
  that is not connected and never checks \<^verbatim>\<open>self.session\<close>: on the unconnected client
  the tool-listing call raises \<open>AttributeError\<close>, and so it does on a connected session
  whose \<^verbatim>\<open>list_tools\<close> raises that exception. The error raised does not say that the
  session is not connected.
\<close>

theorem not_connected_kind_counterexample:
  "fst (process_query 5 loads_example client_unconnected ''hi'' []) = Raised AttributeError \<and>
   session client_tools_broken \<noteq> None \<and>
   fst (process_query 5 loads_example client_tools_broken ''hi'' []) = Raised AttributeError"
  by (simp add: process_query_def client_unconnected_def client_tools_broken_def
      session_broken_def Let_def)

text \<open>
  Claim C9, amended. On a client whose session was not initialised, \<^verbatim>\<open>process_query\<close>
  raises Python's \<open>AttributeError\<close> at the tool-listing call (\<^verbatim>\<open>self.session\<close> is
  \<^verbatim>\<open>None\<close>), before any call to the session or to the model: the log is unchanged.
  \<^verbatim>\<open>chat_loop\<close> prints that error for a query and goes on with the next line; whatever
  the input, it makes no library call and no exception leaves it.
\<close>

theorem unconnected_session_attribute_error:
  assumes "session c = None"
  shows "process_query fuel L c query tr = (Raised AttributeError, [User_dict query], tr) \<and>
         (strip line \<noteq> [] \<and> lower (strip line) \<noteq> ''quit'' \<longrightarrow>
            chat_while (Suc k) fuel L c (line # rest) tr out =
              chat_while k fuel L c rest tr (out @ [Prompt, Print_error AttributeError])) \<and>
         fst (snd (snd (chat_while k fuel L c stdin tr out))) = tr \<and>
         (\<forall>e. fst (chat_while k fuel L c stdin tr out) \<noteq> Raised e)"
proof -
  have pq: "process_query fuel L c q tr = (Raised AttributeError, [User_dict q], tr)" for q
    using assms by (simp add: process_query_def Let_def)
  have "strip line \<noteq> [] \<and> lower (strip line) \<noteq> ''quit'' \<longrightarrow>
      chat_while (Suc k) fuel L c (line # rest) tr out =
        chat_while k fuel L c rest tr (out @ [Prompt, Print_error AttributeError])"
    by (simp add: pq Let_def)
  with pq chat_while_unconnected [OF assms] show ?thesis
    by blast
qed

theorem unconnected_session_attribute_error_witness:
  "process_query 5 loads_example client_unconnected ''hi'' [] =
     (Raised AttributeError, [User_dict ''hi''], []) \<and>
   chat_while (Suc (Suc 0)) 5 loads_example client_unconnected (''hi'' # [''quit'']) [] [] =
     chat_while (Suc 0) 5 loads_example client_unconnected [''quit''] []
       ([] @ [Prompt, Print_error AttributeError]) \<and>
   chat_while (Suc (Suc 0)) 5 loads_example client_unconnected (''hi'' # [''quit'']) [] [] =
     (Returned (), [], [], [Prompt, Print_error AttributeError, Prompt]) \<and>
   fst (snd (snd (chat_while (Suc (Suc 0)) 5 loads_example client_unconnected
                    (''hi'' # [''quit'']) [] []))) = [] \<and>
   (\<forall>e. fst (chat_while (Suc (Suc 0)) 5 loads_example client_unconnected
                (''hi'' # [''quit'']) [] []) \<noteq> Raised e)"
proof -
  have h: "session client_unconnected = None"
    by (simp add: client_unconnected_def)
  have texts: "strip ''hi'' = ''hi''" "lower ''hi'' = ''hi''"
    "strip ''quit'' = ''quit''" "lower ''quit'' = ''quit''"
    by (simp_all add: strip_def lower_def isspace_def)
  have line: "strip ''hi'' \<noteq> [] \<and> lower (strip ''hi'') \<noteq> ''quit''"
    by (simp add: texts)
  note inst = unconnected_session_attribute_error [OF h, where fuel = 5 and L = loads_example
      and query = "''hi''" and tr = "[]" and line = "''hi''" and k = "Suc 0"
      and rest = "[''quit'']" and out = "[]"]
  from inst [of "[]"] have c1: "process_query 5 loads_example client_unconnected ''hi'' [] =
     (Raised AttributeError, [User_dict ''hi''], [])"
    by blast
  from inst [of "[]"] line have c2:
    "chat_while (Suc (Suc 0)) 5 loads_example client_unconnected (''hi'' # [''quit'']) [] [] =
     chat_while (Suc 0) 5 loads_example client_unconnected [''quit''] []
       ([] @ [Prompt, Print_error AttributeError])"
    by blast
  have c3: "chat_while (Suc 0) 5 loads_example client_unconnected [''quit''] []
       ([] @ [Prompt, Print_error AttributeError]) =
     (Returned (), [], [], [Prompt, Print_error AttributeError, Prompt])"
    by (simp add: texts)
  from unconnected_session_attribute_error [OF h, where fuel = 5 and L = loads_example
      and tr = "[]" and k = "Suc (Suc 0)" and stdin = "''hi'' # [''quit'']" and out = "[]"]
  have c4: "fst (snd (snd (chat_while (Suc (Suc 0)) 5 loads_example client_unconnected
                    (''hi'' # [''quit'']) [] []))) = [] \<and>
   (\<forall>e. fst (chat_while (Suc (Suc 0)) 5 loads_example client_unconnected
                (''hi'' # [''quit'']) [] []) \<noteq> Raised e)"
    by blast
  from c1 c2 c3 c4 show ?thesis by simp
qed

subsection \<open>A first response without tool calls\<close>

text \<open>
  Claim C2, as stated, at a concrete input: the model answers \<^verbatim>\<open>hello\<close> with no tool
  call. \<^verbatim>\<open>process_query\<close> returns the text, and \<^verbatim>\<open>messages\<close> holds one entry, the
  user's, not two: the \<^verbatim>\<open>return\<close> comes before any \<^verbatim>\<open>append\<close>.
\<close>

theorem plain_answer_two_turns_counterexample:
  "fst (process_query 1 loads_example client_plain ''hi'' []) = Returned (Some ''hello'') \<and>
   fst (snd (process_query 1 loads_example client_plain ''hi'' [])) = [User_dict ''hi''] \<and>
   length (fst (snd (process_query 1 loads_example client_plain ''hi'' []))) \<noteq> 2"
  by (simp add: process_query_def client_plain_def session_example_def loop_body_def
      plain_answer_def Let_def)

text \<open>
  Claim C2, amended. When the model's first response has no tool calls (\<^verbatim>\<open>None\<close> or
  an empty list), \<^verbatim>\<open>process_query\<close> returns that response's content unchanged, after
  one tool listing and one model call, whatever positive number of passes is allowed;
  at the return \<^verbatim>\<open>messages\<close> holds exactly one entry, the user's.
\<close>

theorem plain_answer_returned:
  assumes "session c = Some sess"
    and "list_tools sess tr = Inr ts"
    and "openai_create c (tr @ [ListTools (Inr ts)])
           \<lparr>model = azure_deployment_name c, max_tokens = 1500, messages = [User_dict query],
            tools = map to_available_tool ts, tool_choice = ''auto''\<rparr> = Inr response"
    and "choices response = ch # chs"
    and "cm_tool_calls (message ch) = None \<or> cm_tool_calls (message ch) = Some []"
  shows "process_query (Suc n) L c query tr =
           (Returned (cm_content (message ch)), [User_dict query],
            tr @ [ListTools (Inr ts),
                  Create \<lparr>model = azure_deployment_name c, max_tokens = 1500,
                          messages = [User_dict query], tools = map to_available_tool ts,
                          tool_choice = ''auto''\<rparr> (Inr response)])"
  using assms loop_body_plain [OF assms(3) assms(4) assms(5)]
  by (simp add: process_query_def Let_def)

theorem plain_answer_returned_witness:
  "process_query (Suc 0) loads_example client_plain ''hi'' [] =
     (Returned (Some ''hello''), [User_dict ''hi''],
      [ListTools (Inr [issues_tool]),
       Create \<lparr>model = ''gpt'', max_tokens = 1500, messages = [User_dict ''hi''],
               tools = map to_available_tool [issues_tool], tool_choice = ''auto''\<rparr>
         (Inr plain_answer)])"
proof -
  have h1: "session client_plain = Some session_example"
    by (simp add: client_plain_def)
  have h2: "list_tools session_example [] = Inr [issues_tool]"
    by (simp add: session_example_def)
  have h3: "openai_create client_plain ([] @ [ListTools (Inr [issues_tool])])
      \<lparr>model = azure_deployment_name client_plain, max_tokens = 1500,
       messages = [User_dict ''hi''], tools = map to_available_tool [issues_tool],
       tool_choice = ''auto''\<rparr> = Inr plain_answer"
    by (simp add: client_plain_def)
  have h4: "choices plain_answer =
      \<lparr>message = \<lparr>cm_content = Some ''hello'', cm_tool_calls = None\<rparr>\<rparr> # []"
    by (simp add: plain_answer_def)
  have h5: "cm_tool_calls (message \<lparr>message = \<lparr>cm_content = Some ''hello'',
        cm_tool_calls = None\<rparr>\<rparr>) = None
     \<or> cm_tool_calls (message \<lparr>message = \<lparr>cm_content = Some ''hello'',
        cm_tool_calls = None\<rparr>\<rparr>) = Some []"
    by simp
  show ?thesis
    using plain_answer_returned [OF h1 h2 h3 h4 h5, of 0 loads_example]
    by (simp add: client_plain_def)
qed

subsection \<open>When the loop returns\<close>

text \<open>
  Claim C1. \<^verbatim>\<open>process_query\<close> returns \<open>x\<close> exactly when one of the model calls it made
  was answered by a response without tool calls, whose content is \<open>x\<close>: that is the only
  way out by \<^verbatim>\<open>return\<close>. The loop has no bound of its own. With a model that requests a
  tool in every response, no number of passes makes \<^verbatim>\<open>process_query\<close> return; and when
  in addition no library call raises, the loop is still running after any number \<open>k\<close> of
  passes, having called the model \<open>k\<close> times.
\<close>

theorem returns_only_without_tool_calls:
  "(fst (process_query n L c q tr) = Returned x \<longleftrightarrow>
      (\<exists>ev\<in>set (new_events tr (process_query n L c q tr)). answer_of ev = Some x)) \<and>
   ((\<forall>t req response ch chs. openai_create c t req = Inr response \<longrightarrow>
        choices response = ch # chs \<longrightarrow> (\<exists>tc tcs. cm_tool_calls (message ch) = Some (tc # tcs)))
    \<longrightarrow> (\<forall>k y. fst (process_query k L c q tr) \<noteq> Returned y)) \<and>
   (session c = Some sess \<and> (\<forall>t. \<exists>ts. list_tools sess t = Inr ts) \<and>
    (\<forall>t name a. \<exists>r. call_tool sess t name a = Inr r) \<and>
    (\<forall>t req. \<exists>response ch chs tc tcs.
        openai_create c t req = Inr response \<and> choices response = ch # chs \<and>
        cm_tool_calls (message ch) = Some (tc # tcs) \<and>
        (\<forall>tc'\<in>set (tc # tcs). \<exists>a. L (fn_arguments (tc_function tc')) = Inr a))
    \<longrightarrow> (\<forall>k. fst (process_query k L c q tr) = OutOfFuel \<and>
             length (filter is_Create (new_events tr (process_query k L c q tr))) = k))"
proof (intro conjI impI allI)
  obtain res msgs' tr' where pq: "process_query n L c q tr = (res, msgs', tr')"
    by (cases "process_query n L c q tr")
  from process_query_log [OF pq]
  show "fst (process_query n L c q tr) = Returned x \<longleftrightarrow>
      (\<exists>ev\<in>set (new_events tr (process_query n L c q tr)). answer_of ev = Some x)"
    using pq by auto
next
  fix k y
  assume atc: "\<forall>t req response ch chs. openai_create c t req = Inr response \<longrightarrow>
        choices response = ch # chs \<longrightarrow> (\<exists>tc tcs. cm_tool_calls (message ch) = Some (tc # tcs))"
  show "fst (process_query k L c q tr) \<noteq> Returned y"
  proof (cases "session c")
    case None
    then show ?thesis by (simp add: process_query_def Let_def)
  next
    case (Some s)
    then show ?thesis
      using while_True_never_returns [OF atc]
      by (cases "list_tools s tr") (simp_all add: process_query_def Let_def)
  qed
next
  fix k
  assume h: "session c = Some sess \<and> (\<forall>t. \<exists>ts. list_tools sess t = Inr ts) \<and>
    (\<forall>t name a. \<exists>r. call_tool sess t name a = Inr r) \<and>
    (\<forall>t req. \<exists>response ch chs tc tcs.
        openai_create c t req = Inr response \<and> choices response = ch # chs \<and>
        cm_tool_calls (message ch) = Some (tc # tcs) \<and>
        (\<forall>tc'\<in>set (tc # tcs). \<exists>a. L (fn_arguments (tc_function tc')) = Inr a))"
  then obtain ts where ts: "list_tools sess tr = Inr ts" by blast
  from h have calls: "\<forall>t name a. \<exists>r. call_tool sess t name a = Inr r" by blast
  from h have api: "\<forall>t req. \<exists>response ch chs tc tcs.
        openai_create c t req = Inr response \<and> choices response = ch # chs \<and>
        cm_tool_calls (message ch) = Some (tc # tcs) \<and>
        (\<forall>tc'\<in>set (tc # tcs). \<exists>a. L (fn_arguments (tc_function tc')) = Inr a)" by blast
  have pq: "process_query k L c q tr =
      while_True k L c sess (map to_available_tool ts) [User_dict q] (tr @ [ListTools (Inr ts)])"
    using h ts by (simp add: process_query_def Let_def)
  from while_True_runs_on [OF calls api, of k "map to_available_tool ts" "[User_dict q]"
      "tr @ [ListTools (Inr ts)]"]
  obtain m t where
    w: "while_True k L c sess (map to_available_tool ts) [User_dict q] (tr @ [ListTools (Inr ts)])
          = (OutOfFuel, m, t)" and
    n: "length (filter is_Create (drop (length (tr @ [ListTools (Inr ts)])) t)) = k"
    by blast
  from while_True_log [OF w] obtain evs where "t = (tr @ [ListTools (Inr ts)]) @ evs"
    by blast
  with w n show "fst (process_query k L c q tr) = OutOfFuel"
    and "length (filter is_Create (new_events tr (process_query k L c q tr))) = k"
    unfolding pq by simp_all
qed

theorem returns_only_without_tool_calls_witness:
  "fst (process_query (Suc 0) loads_example client_plain ''hi'' []) = Returned (Some ''hello'') \<and>
   (\<forall>k y. fst (process_query k loads_example client_looping ''q'' []) \<noteq> Returned y) \<and>
   (\<forall>k. fst (process_query k loads_example client_looping ''q'' []) = OutOfFuel \<and>
        length (filter is_Create
                  (new_events [] (process_query k loads_example client_looping ''q'' []))) = k)"
proof -
  have answered: "\<exists>ev\<in>set (new_events []
      (process_query (Suc 0) loads_example client_plain ''hi'' [])).
      answer_of ev = Some (Some ''hello'')"
    by (simp add: process_query_def client_plain_def session_example_def loop_body_def
        plain_answer_def Let_def)
  have always: "\<forall>t req response ch chs.
      openai_create client_looping t req = Inr response \<longrightarrow>
      choices response = ch # chs \<longrightarrow> (\<exists>tc tcs. cm_tool_calls (message ch) = Some (tc # tcs))"
    by (auto simp add: client_looping_def tool_request_def issues_message_def)
  have never_fails: "session client_looping = Some session_example \<and>
      (\<forall>t. \<exists>ts. list_tools session_example t = Inr ts) \<and>
      (\<forall>t name a. \<exists>r. call_tool session_example t name a = Inr r) \<and>
      (\<forall>t req. \<exists>response ch chs tc tcs.
          openai_create client_looping t req = Inr response \<and> choices response = ch # chs \<and>
          cm_tool_calls (message ch) = Some (tc # tcs) \<and>
          (\<forall>tc'\<in>set (tc # tcs). \<exists>a. loads_example (fn_arguments (tc_function tc')) = Inr a))"
    by (simp add: client_looping_def session_example_def tool_request_def issues_message_def
        issues_call_def loads_example_def)
  from returns_only_without_tool_calls
    [of "Suc 0" loads_example client_plain "''hi''" "[]" "Some ''hello''"] answered
  have "fst (process_query (Suc 0) loads_example client_plain ''hi'' [])
      = Returned (Some ''hello'')"
    by blast
  moreover
  from returns_only_without_tool_calls
    [of 0 loads_example client_looping "''q''" "[]" None session_example] always never_fails
  have "(\<forall>k y. fst (process_query k loads_example client_looping ''q'' []) \<noteq> Returned y) \<and>
   (\<forall>k. fst (process_query k loads_example client_looping ''q'' []) = OutOfFuel \<and>
        length (filter is_Create
                  (new_events [] (process_query k loads_example client_looping ''q'' []))) = k)"
    by blast
  ultimately show ?thesis by blast
qed

subsection \<open>What the model is called with\<close>

text \<open>
  Claim C6. Take a query whose loop is still running after \<open>k\<close> passes, with the list
  \<^verbatim>\<open>messages\<close> equal to \<open>msgs_k\<close> then. The next pass calls the model with the whole of
  \<open>msgs_k\<close>, with the tool list converted from the one \<^verbatim>\<open>list_tools\<close> answer of the
  query (the only tool listing in the log of the query), and with \<^verbatim>\<open>tool_choice\<close> set to
  \<^verbatim>\<open>auto\<close>; the rest of the pass only calls tools.
\<close>

theorem model_call_arguments:
  assumes "session c = Some sess"
    and "list_tools sess tr = Inr ts"
    and "process_query k L c q tr = (OutOfFuel, msgs_k, tr_k)"
  shows "\<exists>evs. snd (snd (process_query (Suc k) L c q tr)) =
           tr_k @ Create \<lparr>model = azure_deployment_name c, max_tokens = 1500, messages = msgs_k,
                          tools = map to_available_tool ts, tool_choice = ''auto''\<rparr>
                    (openai_create c tr_k
                       \<lparr>model = azure_deployment_name c, max_tokens = 1500, messages = msgs_k,
                        tools = map to_available_tool ts, tool_choice = ''auto''\<rparr>) # evs \<and>
           (\<forall>ev\<in>set evs. is_CallTool ev) \<and>
           filter is_ListTools (drop (length tr) tr_k) = [ListTools (Inr ts)]"
proof -
  let ?ats = "map to_available_tool ts"
  let ?tr1 = "tr @ [ListTools (Inr ts)]"
  have pq: "process_query j L c q tr = while_True j L c sess ?ats [User_dict q] ?tr1" for j
    using assms(1,2) by (simp add: process_query_def Let_def)
  from assms(3) have w: "while_True k L c sess ?ats [User_dict q] ?tr1 = (OutOfFuel, msgs_k, tr_k)"
    by (simp add: pq)
  from while_True_log [OF w] obtain evs0 where
    evs0: "tr_k = ?tr1 @ evs0" "\<forall>ev\<in>set evs0. \<not> is_ListTools ev"
    by blast
  then have once: "filter is_ListTools (drop (length tr) tr_k) = [ListTools (Inr ts)]"
    by simp
  obtain fl m t where lb: "loop_body L c sess ?ats msgs_k tr_k = (fl, m, t)"
    by (cases "loop_body L c sess ?ats msgs_k tr_k")
  from loop_body_log [OF lb] obtain evs where
    evs: "t = tr_k @ Create (create_request c ?ats msgs_k)
                      (openai_create c tr_k (create_request c ?ats msgs_k)) # evs"
      "\<forall>ev\<in>set evs. is_CallTool ev"
    by blast
  have "snd (snd (process_query (Suc k) L c q tr)) = t"
    unfolding pq while_True_Suc_end [OF w] using lb
    by (cases fl) simp_all
  with evs once show ?thesis by blast
qed

theorem model_call_arguments_witness:
  "\<exists>evs. snd (snd (process_query (Suc (Suc 0)) loads_example client_issues
                     ''list open issues'' [])) =
           issues_log @
             Create \<lparr>model = azure_deployment_name client_issues, max_tokens = 1500,
                     messages = issues_messages, tools = map to_available_tool [issues_tool],
                     tool_choice = ''auto''\<rparr>
               (openai_create client_issues issues_log
                  \<lparr>model = azure_deployment_name client_issues, max_tokens = 1500,
                   messages = issues_messages, tools = map to_available_tool [issues_tool],
                   tool_choice = ''auto''\<rparr>) # evs \<and>
           (\<forall>ev\<in>set evs. is_CallTool ev) \<and>
           filter is_ListTools (drop (length ([] :: event list)) issues_log)
             = [ListTools (Inr [issues_tool])]"
proof -
  have h1: "session client_issues = Some session_example"
    by (simp add: client_issues_def)
  have h2: "list_tools session_example [] = Inr [issues_tool]"
    by (simp add: session_example_def)
  show ?thesis
    by (rule model_call_arguments [OF h1 h2 issues_run_1])
qed

text \<open>
  Claim C10. Every model call that \<^verbatim>\<open>process_query\<close> makes asks for at most 1500
  completion tokens: \<^verbatim>\<open>max_tokens\<close> is 1500 in every request of the log.
\<close>

theorem max_tokens_1500:
  "\<forall>ev\<in>set (new_events tr (process_query n L c q tr)).
     \<forall>req r. ev = Create req r \<longrightarrow> max_tokens req = 1500"
proof -
  obtain res msgs' tr' where pq: "process_query n L c q tr = (res, msgs', tr')"
    by (cases "process_query n L c q tr")
  from process_query_log [OF pq] show ?thesis
    using pq by auto
qed

theorem max_tokens_1500_witness:
  "Create (create_request client_issues [to_available_tool issues_tool] issues_messages)
      (Inr final_answer)
     \<in> set (new_events []
          (process_query (Suc (Suc 0)) loads_example client_issues ''list open issues'' [])) \<and>
   max_tokens (create_request client_issues [to_available_tool issues_tool] issues_messages)
     = 1500"
proof -
  have mem: "Create (create_request client_issues [to_available_tool issues_tool] issues_messages)
      (Inr final_answer)
     \<in> set (new_events []
          (process_query (Suc (Suc 0)) loads_example client_issues ''list open issues'' []))"
    by (simp add: issues_run_2)
  from max_tokens_1500 [of "[]" "Suc (Suc 0)" loads_example client_issues "''list open issues''"]
    mem
  have "max_tokens (create_request client_issues [to_available_tool issues_tool] issues_messages)
     = 1500"
    by blast
  with mem show ?thesis by blast
qed

subsection \<open>The list \<^verbatim>\<open>messages\<close> only grows\<close>

text \<open>
  Claim C7. During one run of \<^verbatim>\<open>process_query\<close> the list \<^verbatim>\<open>messages\<close> starts as the
  single user entry and is only ever extended at its end: its value after \<open>n\<close> passes
  is a prefix of its value after \<open>n + k\<close> passes, so no entry is changed or removed. A
  pass that ends with the loop still running has added at least two entries (the response
  and one tool result or more).
\<close>

theorem messages_append_only:
  "prefix [User_dict q] (fst (snd (process_query n L c q tr))) \<and>
   prefix (fst (snd (process_query n L c q tr))) (fst (snd (process_query (n + k) L c q tr))) \<and>
   (fst (process_query (Suc n) L c q tr) = OutOfFuel \<longrightarrow>
      length (fst (snd (process_query n L c q tr))) + 2
        \<le> length (fst (snd (process_query (Suc n) L c q tr))))"
proof (cases "session c")
  case None
  then show ?thesis by (simp add: process_query_def Let_def)
next
  case (Some sess)
  show ?thesis
  proof (cases "list_tools sess tr")
    case (Inl e)
    with Some show ?thesis by (simp add: process_query_def Let_def)
  next
    case (Inr ts)
    have pq: "process_query j L c q tr =
        while_True j L c sess (map to_available_tool ts) [User_dict q] (tr @ [ListTools (Inr ts)])"
      for j
      using Some Inr by (simp add: process_query_def Let_def)
    show ?thesis
      unfolding pq
      by (intro conjI impI while_True_prefix while_True_add_prefix while_True_grows)
  qed
qed

theorem messages_append_only_witness:
  "fst (process_query (Suc 0) loads_example client_issues ''list open issues'' []) = OutOfFuel \<and>
   prefix [User_dict ''list open issues'']
     (fst (snd (process_query 0 loads_example client_issues ''list open issues'' []))) \<and>
   prefix (fst (snd (process_query 0 loads_example client_issues ''list open issues'' [])))
     (fst (snd (process_query (0 + 2) loads_example client_issues ''list open issues'' []))) \<and>
   length (fst (snd (process_query 0 loads_example client_issues ''list open issues'' []))) + 2
     \<le> length (fst (snd (process_query (Suc 0) loads_example client_issues
                             ''list open issues'' [])))"
proof -
  have h: "fst (process_query (Suc 0) loads_example client_issues ''list open issues'' [])
      = OutOfFuel"
    by (simp add: issues_run_1)
  from messages_append_only [of "''list open issues''" 0 loads_example client_issues "[]" 2] h
  show ?thesis by blast
qed

subsection \<open>The tool calls of one response\<close>

text \<open>
  Claim C5, as stated, at a concrete input: the model asks for three tool calls in one
  response; the first two return, the third raises. The three calls were made in the
  order of the request, and \<^verbatim>\<open>messages\<close> holds the response and no tool result entry:
  there is not one entry per requested call.
\<close>

theorem tool_results_missing_counterexample:
  "process_query (Suc (Suc 0)) loads_example client_triple ''q'' [] =
     (Raised (OtherException ''McpError''),
      [User_dict ''q'', Response_message triple_message],
      [ListTools (Inr [issues_tool]),
       Create (create_request client_triple [to_available_tool issues_tool] [User_dict ''q''])
         (Inr triple_request),
       CallTool ''list_issues'' (JObj []) (Inr \<lparr>res_content = JNum 0, isError = False\<rparr>),
       CallTool ''list_issues'' (JObj []) (Inr \<lparr>res_content = JNum 1, isError = False\<rparr>),
       CallTool ''nope'' (JObj []) (Inl (OtherException ''McpError''))])"
  by (simp add: process_query_def client_triple_def session_counting_def loop_body_def
      triple_request_def triple_message_def first_call_def second_call_def third_call_def
      loads_example_def Let_def)

text \<open>
  Claim C5, amended. In a pass where the model requests the tool calls \<open>tc # tcs\<close>, the
  session is called once per tool call, one at a time and in the order of the request,
  each call on the log left by the calls before it, up to the first call that raises
  (its payload does not parse, or \<^verbatim>\<open>call_tool\<close> raises). When every call has returned,
  \<^verbatim>\<open>messages\<close> grows by the response followed by exactly one tool result entry per
  requested call, in the same order, with the identifiers and names of the calls and the
  contents the session returned, and the loop goes on to its next pass. When a call
  raises, the calls after it are not made, no tool result entry of that response is
  appended, and the exception leaves the loop.
\<close>

theorem tool_calls_in_order:
  assumes "openai_create c tr (create_request c ats msgs) = Inr response"
    and "choices response = ch # chs"
    and "cm_tool_calls (message ch) = Some (tc # tcs)"
  shows "\<exists>evs.
     length evs \<le> length (tc # tcs) \<and>
     (\<forall>i<length evs. \<exists>a.
        L (fn_arguments (tc_function ((tc # tcs) ! i))) = Inr a \<and>
        evs ! i = CallTool (fn_name (tc_function ((tc # tcs) ! i))) a
          (call_tool sess (tr @ Create (create_request c ats msgs) (Inr response) # take i evs)
             (fn_name (tc_function ((tc # tcs) ! i))) a)) \<and>
     (\<forall>i. Suc i < length evs \<longrightarrow> failure_of (evs ! i) = None) \<and>
     ((length evs = length (tc # tcs) \<and> (\<forall>ev\<in>set evs. failure_of ev = None) \<and>
       (\<exists>rs. map tool_call_id rs = map tc_id (tc # tcs) \<and>
          map td_name rs = map (\<lambda>t. fn_name (tc_function t)) (tc # tcs) \<and>
          map td_role rs = map (\<lambda>t. ''tool'') (tc # tcs) \<and>
          map (\<lambda>d. Some (td_content d)) rs = map result_content evs \<and>
          while_True (Suc n) L c sess ats msgs tr =
            while_True n L c sess ats (msgs @ Response_message (message ch) # map Tool_dict rs)
              (tr @ Create (create_request c ats msgs) (Inr response) # evs))) \<or>
      (\<exists>e. ((length evs < length (tc # tcs) \<and> (\<forall>ev\<in>set evs. failure_of ev = None) \<and>
             L (fn_arguments (tc_function ((tc # tcs) ! length evs))) = Inl e) \<or>
            (evs \<noteq> [] \<and> failure_of (last evs) = Some e)) \<and>
           while_True (Suc n) L c sess ats msgs tr =
             (Raised e, msgs @ [Response_message (message ch)],
              tr @ Create (create_request c ats msgs) (Inr response) # evs)))"
proof -
  let ?tr1 = "tr @ [Create (create_request c ats msgs) (Inr response)]"
  obtain res tr2 where f: "for_tool_calls L sess (tc # tcs) [] ?tr1 = (res, tr2)"
    by (cases "for_tool_calls L sess (tc # tcs) [] ?tr1")
  from for_tool_calls_trace [OF f] obtain evs where
    tr2: "tr2 = ?tr1 @ evs" and len: "length evs \<le> length (tc # tcs)" and
    each: "\<forall>i<length evs. \<exists>a. L (fn_arguments (tc_function ((tc # tcs) ! i))) = Inr a \<and>
        evs ! i = CallTool (fn_name (tc_function ((tc # tcs) ! i))) a
          (call_tool sess (?tr1 @ take i evs) (fn_name (tc_function ((tc # tcs) ! i))) a)" and
    before: "\<forall>i. Suc i < length evs \<longrightarrow> failure_of (evs ! i) = None" and
    fin: "case res of
        Inr rs \<Rightarrow> length evs = length (tc # tcs) \<and> (\<forall>ev\<in>set evs. failure_of ev = None)
      | Inl e \<Rightarrow>
          (length evs < length (tc # tcs) \<and> (\<forall>ev\<in>set evs. failure_of ev = None) \<and>
           L (fn_arguments (tc_function ((tc # tcs) ! length evs))) = Inl e) \<or>
          (evs \<noteq> [] \<and> failure_of (last evs) = Some e)"
    by blast
  have each': "\<forall>i<length evs. \<exists>a. L (fn_arguments (tc_function ((tc # tcs) ! i))) = Inr a \<and>
        evs ! i = CallTool (fn_name (tc_function ((tc # tcs) ! i))) a
          (call_tool sess (tr @ Create (create_request c ats msgs) (Inr response) # take i evs)
             (fn_name (tc_function ((tc # tcs) ! i))) a)"
    using each by simp
  have log: "tr2 = tr @ Create (create_request c ats msgs) (Inr response) # evs"
    using tr2 by simp
  show ?thesis
  proof (cases res)
    case (Inl e)
    have "loop_body L c sess ats msgs tr =
        (Raise e, msgs @ [Response_message (message ch)], tr2)"
      using assms f Inl by (simp add: loop_body_def Let_def del: for_tool_calls.simps)
    then have w: "while_True (Suc n) L c sess ats msgs tr =
        (Raised e, msgs @ [Response_message (message ch)],
         tr @ Create (create_request c ats msgs) (Inr response) # evs)"
      by (simp add: log)
    from fin Inl have raising:
      "(length evs < length (tc # tcs) \<and> (\<forall>ev\<in>set evs. failure_of ev = None) \<and>
           L (fn_arguments (tc_function ((tc # tcs) ! length evs))) = Inl e) \<or>
          (evs \<noteq> [] \<and> failure_of (last evs) = Some e)"
      by simp
    show ?thesis
      apply (rule exI [of _ evs])
      apply (intro conjI)
         apply (rule len)
        apply (rule each')
       apply (rule before)
      apply (rule disjI2)
      apply (rule exI [of _ e])
      apply (rule conjI [OF raising w])
      done
  next
    case (Inr rs)
    have "loop_body L c sess ats msgs tr =
        (Continue, msgs @ Response_message (message ch) # map Tool_dict rs, tr2)"
      using assms f Inr by (simp add: loop_body_def Let_def del: for_tool_calls.simps)
    then have w: "while_True (Suc n) L c sess ats msgs tr =
        while_True n L c sess ats (msgs @ Response_message (message ch) # map Tool_dict rs)
          (tr @ Create (create_request c ats msgs) (Inr response) # evs)"
      by (simp add: log)
    from for_tool_calls_results [OF f [unfolded Inr]] obtain new evs' where
      new: "rs = [] @ new" "tr2 = ?tr1 @ evs'"
        "map tool_call_id new = map tc_id (tc # tcs)"
        "map td_name new = map (\<lambda>t. fn_name (tc_function t)) (tc # tcs)"
        "map td_role new = map (\<lambda>t. ''tool'') (tc # tcs)"
        "map (\<lambda>d. Some (td_content d)) new = map result_content evs'"
      by blast
    from new(2) tr2 have "evs' = evs" by simp
    with new have rs: "map tool_call_id rs = map tc_id (tc # tcs)"
        "map td_name rs = map (\<lambda>t. fn_name (tc_function t)) (tc # tcs)"
        "map td_role rs = map (\<lambda>t. ''tool'') (tc # tcs)"
        "map (\<lambda>d. Some (td_content d)) rs = map result_content evs"
      by simp_all
    from fin Inr have full: "length evs = length (tc # tcs)" "\<forall>ev\<in>set evs. failure_of ev = None"
      by simp_all
    show ?thesis
      apply (rule exI [of _ evs])
      apply (intro conjI)
         apply (rule len)
        apply (rule each')
       apply (rule before)
      apply (rule disjI1)
      apply (intro conjI)
        apply (rule full(1))
       apply (rule full(2))
      apply (rule exI [of _ rs])
      apply (intro conjI rs w)
      done
  qed
qed

theorem tool_calls_in_order_witness:
  "(\<exists>evs.
     length evs \<le> length (first_call # [second_call]) \<and>
     (\<forall>i<length evs. \<exists>a.
        loads_example (fn_arguments (tc_function ((first_call # [second_call]) ! i))) = Inr a \<and>
        evs ! i = CallTool (fn_name (tc_function ((first_call # [second_call]) ! i))) a
          (call_tool session_counting
             ([ListTools (Inr [issues_tool])] @
                Create (create_request client_pair [to_available_tool issues_tool]
                          [User_dict ''q'']) (Inr pair_request) # take i evs)
             (fn_name (tc_function ((first_call # [second_call]) ! i))) a)) \<and>
     (\<forall>i. Suc i < length evs \<longrightarrow> failure_of (evs ! i) = None) \<and>
     ((length evs = length (first_call # [second_call]) \<and>
       (\<forall>ev\<in>set evs. failure_of ev = None) \<and>
       (\<exists>rs. map tool_call_id rs = map tc_id (first_call # [second_call]) \<and>
          map td_name rs = map (\<lambda>t. fn_name (tc_function t)) (first_call # [second_call]) \<and>
          map td_role rs = map (\<lambda>t. ''tool'') (first_call # [second_call]) \<and>
          map (\<lambda>d. Some (td_content d)) rs = map result_content evs \<and>
          while_True (Suc 0) loads_example client_pair session_counting
              [to_available_tool issues_tool] [User_dict ''q''] [ListTools (Inr [issues_tool])] =
            while_True 0 loads_example client_pair session_counting
              [to_available_tool issues_tool]
              ([User_dict ''q''] @
                 Response_message (message \<lparr>message = pair_message\<rparr>) # map Tool_dict rs)
              ([ListTools (Inr [issues_tool])] @
                 Create (create_request client_pair [to_available_tool issues_tool]
                           [User_dict ''q'']) (Inr pair_request) # evs))) \<or>
      (\<exists>e. ((length evs < length (first_call # [second_call]) \<and>
             (\<forall>ev\<in>set evs. failure_of ev = None) \<and>
             loads_example
               (fn_arguments (tc_function ((first_call # [second_call]) ! length evs))) = Inl e) \<or>
            (evs \<noteq> [] \<and> failure_of (last evs) = Some e)) \<and>
           while_True (Suc 0) loads_example client_pair session_counting
               [to_available_tool issues_tool] [User_dict ''q''] [ListTools (Inr [issues_tool])] =
             (Raised e,
              [User_dict ''q''] @ [Response_message (message \<lparr>message = pair_message\<rparr>)],
              [ListTools (Inr [issues_tool])] @
                Create (create_request client_pair [to_available_tool issues_tool]
                          [User_dict ''q'']) (Inr pair_request) # evs)))) \<and>
   while_True (Suc 0) loads_example client_pair session_counting
       [to_available_tool issues_tool] [User_dict ''q''] [ListTools (Inr [issues_tool])] =
     (OutOfFuel,
      [User_dict ''q'', Response_message pair_message,
       Tool_dict \<lparr>tool_call_id = ''call_a'', td_role = ''tool'', td_name = ''list_issues'',
                  td_content = JNum 0\<rparr>,
       Tool_dict \<lparr>tool_call_id = ''call_b'', td_role = ''tool'', td_name = ''list_issues'',
                  td_content = JNum 1\<rparr>],
      [ListTools (Inr [issues_tool]),
       Create (create_request client_pair [to_available_tool issues_tool] [User_dict ''q''])
         (Inr pair_request),
       CallTool ''list_issues'' (JObj []) (Inr \<lparr>res_content = JNum 0, isError = False\<rparr>),
       CallTool ''list_issues'' (JObj []) (Inr \<lparr>res_content = JNum 1, isError = False\<rparr>)])"
proof (rule conjI)
  have a1: "openai_create client_pair [ListTools (Inr [issues_tool])]
      (create_request client_pair [to_available_tool issues_tool] [User_dict ''q''])
      = Inr pair_request"
    by (simp add: client_pair_def)
  have a2: "choices pair_request = \<lparr>message = pair_message\<rparr> # []"
    by (simp add: pair_request_def)
  have a3: "cm_tool_calls (message \<lparr>message = pair_message\<rparr>)
      = Some (first_call # [second_call])"
    by (simp add: pair_message_def)
  show "\<exists>evs.
     length evs \<le> length (first_call # [second_call]) \<and>
     (\<forall>i<length evs. \<exists>a.
        loads_example (fn_arguments (tc_function ((first_call # [second_call]) ! i))) = Inr a \<and>
        evs ! i = CallTool (fn_name (tc_function ((first_call # [second_call]) ! i))) a
          (call_tool session_counting
             ([ListTools (Inr [issues_tool])] @
                Create (create_request client_pair [to_available_tool issues_tool]
                          [User_dict ''q'']) (Inr pair_request) # take i evs)
             (fn_name (tc_function ((first_call # [second_call]) ! i))) a)) \<and>
     (\<forall>i. Suc i < length evs \<longrightarrow> failure_of (evs ! i) = None) \<and>
     ((length evs = length (first_call # [second_call]) \<and>
       (\<forall>ev\<in>set evs. failure_of ev = None) \<and>
       (\<exists>rs. map tool_call_id rs = map tc_id (first_call # [second_call]) \<and>
          map td_name rs = map (\<lambda>t. fn_name (tc_function t)) (first_call # [second_call]) \<and>
          map td_role rs = map (\<lambda>t. ''tool'') (first_call # [second_call]) \<and>
          map (\<lambda>d. Some (td_content d)) rs = map result_content evs \<and>
          while_True (Suc 0) loads_example client_pair session_counting
              [to_available_tool issues_tool] [User_dict ''q''] [ListTools (Inr [issues_tool])] =
            while_True 0 loads_example client_pair session_counting
              [to_available_tool issues_tool]
              ([User_dict ''q''] @
                 Response_message (message \<lparr>message = pair_message\<rparr>) # map Tool_dict rs)
              ([ListTools (Inr [issues_tool])] @
                 Create (create_request client_pair [to_available_tool issues_tool]
                           [User_dict ''q'']) (Inr pair_request) # evs))) \<or>
      (\<exists>e. ((length evs < length (first_call # [second_call]) \<and>
             (\<forall>ev\<in>set evs. failure_of ev = None) \<and>
             loads_example
               (fn_arguments (tc_function ((first_call # [second_call]) ! length evs))) = Inl e) \<or>
            (evs \<noteq> [] \<and> failure_of (last evs) = Some e)) \<and>
           while_True (Suc 0) loads_example client_pair session_counting
               [to_available_tool issues_tool] [User_dict ''q''] [ListTools (Inr [issues_tool])] =
             (Raised e,
              [User_dict ''q''] @ [Response_message (message \<lparr>message = pair_message\<rparr>)],
              [ListTools (Inr [issues_tool])] @
                Create (create_request client_pair [to_available_tool issues_tool]
                          [User_dict ''q'']) (Inr pair_request) # evs)))"
    by (rule tool_calls_in_order [OF a1 a2 a3])
next
  show "while_True (Suc 0) loads_example client_pair session_counting
       [to_available_tool issues_tool] [User_dict ''q''] [ListTools (Inr [issues_tool])] =
     (OutOfFuel,
      [User_dict ''q'', Response_message pair_message,
       Tool_dict \<lparr>tool_call_id = ''call_a'', td_role = ''tool'', td_name = ''list_issues'',
                  td_content = JNum 0\<rparr>,
       Tool_dict \<lparr>tool_call_id = ''call_b'', td_role = ''tool'', td_name = ''list_issues'',
                  td_content = JNum 1\<rparr>],
      [ListTools (Inr [issues_tool]),
       Create (create_request client_pair [to_available_tool issues_tool] [User_dict ''q''])
         (Inr pair_request),
       CallTool ''list_issues'' (JObj []) (Inr \<lparr>res_content = JNum 0, isError = False\<rparr>),
       CallTool ''list_issues'' (JObj []) (Inr \<lparr>res_content = JNum 1, isError = False\<rparr>)])"
    by (simp add: client_pair_def session_counting_def loop_body_def pair_request_def
        pair_message_def first_call_def second_call_def loads_example_def Let_def)
qed

text \<open>
  Claim C3, as stated, at a concrete input: the model asks for two tool calls, the first
  with the payload \<^verbatim>\<open>{}\<close>, the second with the payload \<^verbatim>\<open>{\<close>. The first call is
  made; at the second \<^verbatim>\<open>json.loads\<close> raises, and the exception leaves \<^verbatim>\<open>process_query\<close>.
  No tool result entry was appended (not even the one of the first call), and the model
  is not called again although a second pass was allowed.
\<close>

theorem malformed_payload_counterexample:
  "process_query (Suc (Suc 0)) loads_example client_malformed ''q'' [] =
     (Raised JSONDecodeError,
      [User_dict ''q'', Response_message malformed_message],
      [ListTools (Inr [issues_tool]),
       Create (create_request client_malformed [to_available_tool issues_tool] [User_dict ''q''])
         (Inr malformed_request),
       CallTool ''list_issues'' (JObj []) (Inr \<lparr>res_content = JNum 3, isError = False\<rparr>)])"
  by (simp add: process_query_def client_malformed_def session_example_def loop_body_def
      malformed_request_def malformed_message_def issues_call_def bad_call_def
      loads_example_def Let_def)

text \<open>
  Claim C3, amended. When a tool call's payload does not parse, and the calls before it
  in the same response have returned, the exception of \<^verbatim>\<open>json.loads\<close> leaves
  \<^verbatim>\<open>process_query\<close>: the query is aborted. \<^verbatim>\<open>messages\<close> then holds the response and no
  tool result entry of that pass, and nothing follows the model call in the log but the
  tool calls made before: there is no further model call.
\<close>

theorem malformed_payload_raises:
  assumes "openai_create c tr (create_request c ats msgs) = Inr response"
    and "choices response = ch # chs"
    and "cm_tool_calls (message ch) = Some (pre @ tc # post)"
    and "for_tool_calls L sess pre [] (tr @ [Create (create_request c ats msgs) (Inr response)])
           = (Inr rs, tr2)"
    and "L (fn_arguments (tc_function tc)) = Inl e"
  shows "while_True (Suc n) L c sess ats msgs tr =
           (Raised e, msgs @ [Response_message (message ch)], tr2) \<and>
         (\<exists>evs. tr2 = tr @ Create (create_request c ats msgs) (Inr response) # evs \<and>
                list_all is_CallTool evs)"
proof -
  let ?tr1 = "tr @ [Create (create_request c ats msgs) (Inr response)]"
  obtain tc0 tcs0 where calls: "pre @ tc # post = tc0 # tcs0"
    by (cases pre) simp_all
  have "for_tool_calls L sess (pre @ tc # post) [] ?tr1 = (Inl e, tr2)"
    using assms(4,5) by (simp add: for_tool_calls_append)
  then have f: "for_tool_calls L sess (tc0 # tcs0) [] ?tr1 = (Inl e, tr2)"
    by (simp only: calls)
  have "loop_body L c sess ats msgs tr = (Raise e, msgs @ [Response_message (message ch)], tr2)"
    using assms(1,2) assms(3) [unfolded calls] f
    by (simp add: loop_body_def Let_def del: for_tool_calls.simps)
  moreover from for_tool_calls_log [OF assms(4)] obtain evs where
    "tr2 = ?tr1 @ evs" "\<forall>ev\<in>set evs. is_CallTool ev"
    by blast
  ultimately show ?thesis
    by (auto simp add: list_all_iff)
qed

theorem malformed_payload_raises_witness:
  "while_True (Suc 0) loads_example client_malformed session_example
     [to_available_tool issues_tool] [User_dict ''q''] [ListTools (Inr [issues_tool])] =
     (Raised JSONDecodeError,
      [User_dict ''q''] @ [Response_message (message \<lparr>message = malformed_message\<rparr>)],
      [ListTools (Inr [issues_tool]),
       Create (create_request client_malformed [to_available_tool issues_tool] [User_dict ''q''])
         (Inr malformed_request),
       CallTool ''list_issues'' (JObj []) (Inr \<lparr>res_content = JNum 3, isError = False\<rparr>)]) \<and>
   (\<exists>evs. [ListTools (Inr [issues_tool]),
            Create (create_request client_malformed [to_available_tool issues_tool]
                      [User_dict ''q'']) (Inr malformed_request),
            CallTool ''list_issues'' (JObj []) (Inr \<lparr>res_content = JNum 3, isError = False\<rparr>)] =
           [ListTools (Inr [issues_tool])] @
             Create (create_request client_malformed [to_available_tool issues_tool]
                       [User_dict ''q'']) (Inr malformed_request) # evs \<and>
          list_all is_CallTool evs)"
proof -
  have a1: "openai_create client_malformed [ListTools (Inr [issues_tool])]
      (create_request client_malformed [to_available_tool issues_tool] [User_dict ''q''])
      = Inr malformed_request"
    by (simp add: client_malformed_def)
  have a2: "choices malformed_request = \<lparr>message = malformed_message\<rparr> # []"
    by (simp add: malformed_request_def)
  have a3: "cm_tool_calls (message \<lparr>message = malformed_message\<rparr>)
      = Some ([issues_call] @ bad_call # [])"
    by (simp add: malformed_message_def)
  have a4: "for_tool_calls loads_example session_example [issues_call] []
      ([ListTools (Inr [issues_tool])] @
         [Create (create_request client_malformed [to_available_tool issues_tool]
                    [User_dict ''q'']) (Inr malformed_request)]) =
      (Inr [\<lparr>tool_call_id = ''call_1'', td_role = ''tool'', td_name = ''list_issues'',
              td_content = JNum 3\<rparr>],
       [ListTools (Inr [issues_tool]),
        Create (create_request client_malformed [to_available_tool issues_tool]
                  [User_dict ''q'']) (Inr malformed_request),
        CallTool ''list_issues'' (JObj []) (Inr \<lparr>res_content = JNum 3, isError = False\<rparr>)])"
    by (simp add: session_example_def issues_call_def loads_example_def Let_def)
  have a5: "loads_example (fn_arguments (tc_function bad_call)) = Inl JSONDecodeError"
    by (simp add: bad_call_def loads_example_def)
  show ?thesis
    by (rule malformed_payload_raises [OF a1 a2 a3 a4 a5])
qed

text \<open>
  Claim C4, as stated, at a concrete input: the model asks for \<^verbatim>\<open>list_issues\<close>, whose
  failure the server reports in the result, and then for a tool the server does not
  know, for which \<^verbatim>\<open>call_tool\<close> raises. The exception leaves \<^verbatim>\<open>process_query\<close>, and
  neither call has a tool result entry in \<^verbatim>\<open>messages\<close>.
\<close>

theorem call_tool_raises_counterexample:
  "process_query (Suc (Suc 0)) loads_example client_reporting ''q'' [] =
     (Raised (OtherException ''McpError''),
      [User_dict ''q'', Response_message two_calls_message],
      [ListTools (Inr [issues_tool]),
       Create (create_request client_reporting [to_available_tool issues_tool] [User_dict ''q''])
         (Inr two_calls_request),
       CallTool ''list_issues'' (JObj []) (Inr failed_result),
       CallTool ''nope'' (JObj []) (Inl (OtherException ''McpError''))])"
  by (simp add: process_query_def client_reporting_def session_reporting_def loop_body_def
      two_calls_request_def two_calls_message_def issues_call_def unknown_call_def
      loads_example_def Let_def)

text \<open>
  Claim C4, amended. Take a tool call of a response whose payload parses, the calls before
  it in the response having returned. When \<^verbatim>\<open>call_tool\<close> returns a result for it, with
  or without the error flag, the content of the result is put into a tool result entry
  for that call and nothing is raised; when it is the last call of the response,
  \<^verbatim>\<open>messages\<close> grows by the response and the entries of all its calls, and the loop goes
  on to its next pass. When \<^verbatim>\<open>call_tool\<close> raises, the exception leaves the loop of
  \<^verbatim>\<open>process_query\<close>, and \<^verbatim>\<open>messages\<close> has the response but no tool result entry of
  that response, not even for the calls that had returned.
\<close>

theorem call_tool_result_or_raise:
  assumes "openai_create c tr (create_request c ats msgs) = Inr response"
    and "choices response = ch # chs"
    and "cm_tool_calls (message ch) = Some (pre @ tc # post)"
    and "for_tool_calls L sess pre [] (tr @ [Create (create_request c ats msgs) (Inr response)])
           = (Inr rs, tr2)"
    and "L (fn_arguments (tc_function tc)) = Inr a"
  shows "(\<forall>e. call_tool sess tr2 (fn_name (tc_function tc)) a = Inl e \<longrightarrow>
            while_True (Suc n) L c sess ats msgs tr =
              (Raised e, msgs @ [Response_message (message ch)],
               tr2 @ [CallTool (fn_name (tc_function tc)) a (Inl e)])) \<and>
         (\<forall>result. call_tool sess tr2 (fn_name (tc_function tc)) a = Inr result \<longrightarrow>
            for_tool_calls L sess (pre @ [tc]) []
                (tr @ [Create (create_request c ats msgs) (Inr response)]) =
              (Inr (rs @ [\<lparr>tool_call_id = tc_id tc, td_role = ''tool'',
                            td_name = fn_name (tc_function tc),
                            td_content = res_content result\<rparr>]),
               tr2 @ [CallTool (fn_name (tc_function tc)) a (Inr result)]) \<and>
            (post = [] \<longrightarrow>
               while_True (Suc n) L c sess ats msgs tr =
                 while_True n L c sess ats
                   (msgs @ Response_message (message ch) #
                      map Tool_dict
                        (rs @ [\<lparr>tool_call_id = tc_id tc, td_role = ''tool'',
                                 td_name = fn_name (tc_function tc),
                                 td_content = res_content result\<rparr>]))
                   (tr2 @ [CallTool (fn_name (tc_function tc)) a (Inr result)])))"
proof (intro conjI allI impI)
  let ?tr1 = "tr @ [Create (create_request c ats msgs) (Inr response)]"
  let ?n = "fn_name (tc_function tc)"
  obtain tc0 tcs0 where calls: "pre @ tc # post = tc0 # tcs0"
    by (cases pre) simp_all
  {
    fix e
    assume raised: "call_tool sess tr2 ?n a = Inl e"
    have "for_tool_calls L sess (pre @ tc # post) [] ?tr1 = (Inl e, tr2 @ [CallTool ?n a (Inl e)])"
      using assms(4,5) raised by (simp add: for_tool_calls_append Let_def)
    then have f: "for_tool_calls L sess (tc0 # tcs0) [] ?tr1 =
        (Inl e, tr2 @ [CallTool ?n a (Inl e)])"
      by (simp only: calls)
    have "loop_body L c sess ats msgs tr =
        (Raise e, msgs @ [Response_message (message ch)], tr2 @ [CallTool ?n a (Inl e)])"
      using assms(1,2) assms(3) [unfolded calls] f
      by (simp add: loop_body_def Let_def del: for_tool_calls.simps)
    then show "while_True (Suc n) L c sess ats msgs tr =
        (Raised e, msgs @ [Response_message (message ch)], tr2 @ [CallTool ?n a (Inl e)])"
      by simp
  }
  {
    fix result
    assume returned: "call_tool sess tr2 ?n a = Inr result"
    let ?rs = "rs @ [\<lparr>tool_call_id = tc_id tc, td_role = ''tool'', td_name = ?n,
                       td_content = res_content result\<rparr>]"
    let ?tr3 = "tr2 @ [CallTool ?n a (Inr result)]"
    show upto: "for_tool_calls L sess (pre @ [tc]) [] ?tr1 = (Inr ?rs, ?tr3)"
      using assms(4,5) returned by (simp add: for_tool_calls_append Let_def)
    {
      assume last_call: "post = []"
      from upto last_call calls have f: "for_tool_calls L sess (tc0 # tcs0) [] ?tr1 = (Inr ?rs, ?tr3)"
        by simp
      have "loop_body L c sess ats msgs tr =
          (Continue, msgs @ Response_message (message ch) # map Tool_dict ?rs, ?tr3)"
        using assms(1,2) assms(3) [unfolded calls] f
        by (simp add: loop_body_def Let_def del: for_tool_calls.simps)
      then show "while_True (Suc n) L c sess ats msgs tr =
          while_True n L c sess ats (msgs @ Response_message (message ch) # map Tool_dict ?rs) ?tr3"
        by simp
    }
  }
qed

theorem call_tool_result_or_raise_witness:
  "isError failed_result \<and>
   while_True (Suc 0) loads_example client_reporting session_reporting
       [to_available_tool issues_tool] [User_dict ''q''] [ListTools (Inr [issues_tool])] =
     (Raised (OtherException ''McpError''),
      [User_dict ''q''] @ [Response_message (message \<lparr>message = two_calls_message\<rparr>)],
      [ListTools (Inr [issues_tool]),
       Create (create_request client_reporting [to_available_tool issues_tool] [User_dict ''q''])
         (Inr two_calls_request),
       CallTool ''list_issues'' (JObj []) (Inr failed_result)] @
      [CallTool (fn_name (tc_function unknown_call)) (JObj [])
         (Inl (OtherException ''McpError''))]) \<and>
   while_True (Suc (Suc 0)) loads_example client_flagged session_reporting
       [to_available_tool issues_tool] [User_dict ''q''] [ListTools (Inr [issues_tool])] =
     while_True (Suc 0) loads_example client_flagged session_reporting
       [to_available_tool issues_tool]
       ([User_dict ''q''] @ Response_message (message \<lparr>message = issues_message\<rparr>) #
          map Tool_dict
            ([] @ [\<lparr>tool_call_id = tc_id issues_call, td_role = ''tool'',
                     td_name = fn_name (tc_function issues_call),
                     td_content = res_content failed_result\<rparr>]))
       (([ListTools (Inr [issues_tool])] @
           [Create (create_request client_flagged [to_available_tool issues_tool]
                      [User_dict ''q'']) (Inr tool_request)]) @
          [CallTool (fn_name (tc_function issues_call)) (JObj []) (Inr failed_result)]) \<and>
   fst (while_True (Suc (Suc 0)) loads_example client_flagged session_reporting
       [to_available_tool issues_tool] [User_dict ''q''] [ListTools (Inr [issues_tool])])
     = Returned (Some ''There are 3 open issues.'') \<and>
   fst (snd (while_True (Suc (Suc 0)) loads_example client_flagged session_reporting
       [to_available_tool issues_tool] [User_dict ''q''] [ListTools (Inr [issues_tool])])) =
     [User_dict ''q'', Response_message issues_message,
      Tool_dict \<lparr>tool_call_id = ''call_1'', td_role = ''tool'', td_name = ''list_issues'',
                 td_content = JStr ''rate limit exceeded''\<rparr>]"
proof -
  have flag: "isError failed_result"
    by (simp add: failed_result_def)
  have a1: "openai_create client_reporting [ListTools (Inr [issues_tool])]
      (create_request client_reporting [to_available_tool issues_tool] [User_dict ''q''])
      = Inr two_calls_request"
    by (simp add: client_reporting_def)
  have a2: "choices two_calls_request = \<lparr>message = two_calls_message\<rparr> # []"
    by (simp add: two_calls_request_def)
  have a3: "cm_tool_calls (message \<lparr>message = two_calls_message\<rparr>)
      = Some ([issues_call] @ unknown_call # [])"
    by (simp add: two_calls_message_def)
  have a4: "for_tool_calls loads_example session_reporting [issues_call] []
      ([ListTools (Inr [issues_tool])] @
         [Create (create_request client_reporting [to_available_tool issues_tool]
                    [User_dict ''q'']) (Inr two_calls_request)]) =
      (Inr [\<lparr>tool_call_id = ''call_1'', td_role = ''tool'', td_name = ''list_issues'',
              td_content = res_content failed_result\<rparr>],
       [ListTools (Inr [issues_tool]),
        Create (create_request client_reporting [to_available_tool issues_tool]
                  [User_dict ''q'']) (Inr two_calls_request),
        CallTool ''list_issues'' (JObj []) (Inr failed_result)])"
    by (simp add: session_reporting_def issues_call_def loads_example_def Let_def)
  have a5: "loads_example (fn_arguments (tc_function unknown_call)) = Inr (JObj [])"
    by (simp add: unknown_call_def loads_example_def)
  have raised: "call_tool session_reporting
      [ListTools (Inr [issues_tool]),
        Create (create_request client_reporting [to_available_tool issues_tool]
                  [User_dict ''q'']) (Inr two_calls_request),
        CallTool ''list_issues'' (JObj []) (Inr failed_result)]
      (fn_name (tc_function unknown_call)) (JObj []) = Inl (OtherException ''McpError'')"
    by (simp add: session_reporting_def unknown_call_def)
  have c1: "while_True (Suc 0) loads_example client_reporting session_reporting
       [to_available_tool issues_tool] [User_dict ''q''] [ListTools (Inr [issues_tool])] =
     (Raised (OtherException ''McpError''),
      [User_dict ''q''] @ [Response_message (message \<lparr>message = two_calls_message\<rparr>)],
      [ListTools (Inr [issues_tool]),
       Create (create_request client_reporting [to_available_tool issues_tool] [User_dict ''q''])
         (Inr two_calls_request),
       CallTool ''list_issues'' (JObj []) (Inr failed_result)] @
      [CallTool (fn_name (tc_function unknown_call)) (JObj [])
         (Inl (OtherException ''McpError''))])"
    by (rule call_tool_result_or_raise [OF a1 a2 a3 a4 a5, THEN conjunct1, rule_format,
          OF raised])
  have b1: "openai_create client_flagged [ListTools (Inr [issues_tool])]
      (create_request client_flagged [to_available_tool issues_tool] [User_dict ''q''])
      = Inr tool_request"
    by (simp add: client_flagged_def)
  have b2: "choices tool_request = \<lparr>message = issues_message\<rparr> # []"
    by (simp add: tool_request_def)
  have b3: "cm_tool_calls (message \<lparr>message = issues_message\<rparr>)
      = Some ([] @ issues_call # [])"
    by (simp add: issues_message_def)
  have b4: "for_tool_calls loads_example session_reporting [] []
      ([ListTools (Inr [issues_tool])] @
         [Create (create_request client_flagged [to_available_tool issues_tool]
                    [User_dict ''q'']) (Inr tool_request)]) =
      (Inr [],
       [ListTools (Inr [issues_tool])] @
         [Create (create_request client_flagged [to_available_tool issues_tool]
                    [User_dict ''q'']) (Inr tool_request)])"
    by simp
  have b5: "loads_example (fn_arguments (tc_function issues_call)) = Inr (JObj [])"
    by (simp add: issues_call_def loads_example_def)
  have returned: "call_tool session_reporting
      ([ListTools (Inr [issues_tool])] @
         [Create (create_request client_flagged [to_available_tool issues_tool]
                    [User_dict ''q'']) (Inr tool_request)])
      (fn_name (tc_function issues_call)) (JObj []) = Inr failed_result"
    by (simp add: session_reporting_def issues_call_def)
  have c2: "while_True (Suc (Suc 0)) loads_example client_flagged session_reporting
       [to_available_tool issues_tool] [User_dict ''q''] [ListTools (Inr [issues_tool])] =
     while_True (Suc 0) loads_example client_flagged session_reporting
       [to_available_tool issues_tool]
       ([User_dict ''q''] @ Response_message (message \<lparr>message = issues_message\<rparr>) #
          map Tool_dict
            ([] @ [\<lparr>tool_call_id = tc_id issues_call, td_role = ''tool'',
                     td_name = fn_name (tc_function issues_call),
                     td_content = res_content failed_result\<rparr>]))
       (([ListTools (Inr [issues_tool])] @
           [Create (create_request client_flagged [to_available_tool issues_tool]
                      [User_dict ''q'']) (Inr tool_request)]) @
          [CallTool (fn_name (tc_function issues_call)) (JObj []) (Inr failed_result)])"
    by (rule call_tool_result_or_raise [OF b1 b2 b3 b4 b5, THEN conjunct2, rule_format,
          OF returned, THEN conjunct2, rule_format, OF refl])
  have c3: "while_True (Suc 0) loads_example client_flagged session_reporting
       [to_available_tool issues_tool]
       ([User_dict ''q''] @ Response_message (message \<lparr>message = issues_message\<rparr>) #
          map Tool_dict
            ([] @ [\<lparr>tool_call_id = tc_id issues_call, td_role = ''tool'',
                     td_name = fn_name (tc_function issues_call),
                     td_content = res_content failed_result\<rparr>]))
       (([ListTools (Inr [issues_tool])] @
           [Create (create_request client_flagged [to_available_tool issues_tool]
                      [User_dict ''q'']) (Inr tool_request)]) @
          [CallTool (fn_name (tc_function issues_call)) (JObj []) (Inr failed_result)]) =
     (Returned (Some ''There are 3 open issues.''),
      [User_dict ''q'', Response_message issues_message,
       Tool_dict \<lparr>tool_call_id = ''call_1'', td_role = ''tool'', td_name = ''list_issues'',
                  td_content = JStr ''rate limit exceeded''\<rparr>],
      [ListTools (Inr [issues_tool]),
       Create (create_request client_flagged [to_available_tool issues_tool] [User_dict ''q''])
         (Inr tool_request),
       CallTool ''list_issues'' (JObj []) (Inr failed_result),
       Create (create_request client_flagged [to_available_tool issues_tool]
                 [User_dict ''q'', Response_message issues_message,
                  Tool_dict \<lparr>tool_call_id = ''call_1'', td_role = ''tool'',
                             td_name = ''list_issues'',
                             td_content = JStr ''rate limit exceeded''\<rparr>])
         (Inr final_answer)])"
    by (simp add: client_flagged_def loop_body_def final_answer_def issues_call_def
        failed_result_def Let_def)
  from c2 c3 have c4: "fst (while_True (Suc (Suc 0)) loads_example client_flagged
       session_reporting [to_available_tool issues_tool] [User_dict ''q'']
       [ListTools (Inr [issues_tool])]) = Returned (Some ''There are 3 open issues.'')"
    by (simp only: fst_conv)
  from c2 c3 have c5: "fst (snd (while_True (Suc (Suc 0)) loads_example client_flagged
       session_reporting [to_available_tool issues_tool] [User_dict ''q'']
       [ListTools (Inr [issues_tool])])) =
     [User_dict ''q'', Response_message issues_message,
      Tool_dict \<lparr>tool_call_id = ''call_1'', td_role = ''tool'', td_name = ''list_issues'',
                 td_content = JStr ''rate limit exceeded''\<rparr>]"
    by (simp only: fst_conv snd_conv)
  from flag c1 c2 c4 c5 show ?thesis by (intro conjI)
qed

subsection \<open>Failures and \<^verbatim>\<open>chat_loop\<close>\<close>

text \<open>
  Claim C8. A library call that raises during a query (the tool listing, a model call, a
  tool call) makes \<^verbatim>\<open>process_query\<close> raise that exception to its caller. In
  \<^verbatim>\<open>chat_loop\<close> an \<^verbatim>\<open>Exception\<close> raised by the query is printed and the loop goes on
  with the next line of input, keeping nothing of the failed query but the log of what
  was called (its \<^verbatim>\<open>messages\<close> are dropped). No \<^verbatim>\<open>Exception\<close> ever leaves \<^verbatim>\<open>chat_loop\<close>.
\<close>

theorem query_failure_not_fatal:
  "(\<forall>ev\<in>set (new_events tr (process_query fuel L c q tr)).
      \<forall>e. failure_of ev = Some e \<longrightarrow> fst (process_query fuel L c q tr) = Raised e) \<and>
   (process_query fuel L c (strip line) tr = (Raised e, msgs, tr') \<and> is_Exception e \<and>
    strip line \<noteq> [] \<and> lower (strip line) \<noteq> ''quit'' \<longrightarrow>
      chat_while (Suc k) fuel L c (line # rest) tr out =
        chat_while k fuel L c rest tr' (out @ [Prompt, Print_error e])) \<and>
   (\<forall>e'. fst (chat_while k fuel L c stdin tr out) = Raised e' \<longrightarrow> \<not> is_Exception e') \<and>
   (\<forall>e'. fst (chat_loop k fuel L c stdin tr) = Raised e' \<longrightarrow> \<not> is_Exception e')"
proof (intro conjI)
  obtain res m t where pq: "process_query fuel L c q tr = (res, m, t)"
    by (cases "process_query fuel L c q tr")
  from process_query_log [OF pq]
  show "\<forall>ev\<in>set (new_events tr (process_query fuel L c q tr)).
      \<forall>e. failure_of ev = Some e \<longrightarrow> fst (process_query fuel L c q tr) = Raised e"
    using pq by auto
next
  show "process_query fuel L c (strip line) tr = (Raised e, msgs, tr') \<and> is_Exception e \<and>
    strip line \<noteq> [] \<and> lower (strip line) \<noteq> ''quit'' \<longrightarrow>
      chat_while (Suc k) fuel L c (line # rest) tr out =
        chat_while k fuel L c rest tr' (out @ [Prompt, Print_error e])"
    by (simp add: Let_def)
next
  show "\<forall>e'. fst (chat_while k fuel L c stdin tr out) = Raised e' \<longrightarrow> \<not> is_Exception e'"
    using chat_while_no_Exception by blast
next
  show "\<forall>e'. fst (chat_loop k fuel L c stdin tr) = Raised e' \<longrightarrow> \<not> is_Exception e'"
    unfolding chat_loop_def using chat_while_no_Exception by blast
qed

theorem query_failure_not_fatal_witness:
  "fst (process_query (Suc 0) loads_example client_api_down ''hi'' [])
     = Raised (OtherException ''APIConnectionError'') \<and>
   chat_while (Suc (Suc 0)) (Suc 0) loads_example client_api_down [''hi'', ''quit''] [] [] =
     chat_while (Suc 0) (Suc 0) loads_example client_api_down [''quit'']
       [ListTools (Inr [issues_tool]),
        Create (create_request client_api_down [to_available_tool issues_tool] [User_dict ''hi''])
          (Inl (OtherException ''APIConnectionError''))]
       ([] @ [Prompt, Print_error (OtherException ''APIConnectionError'')]) \<and>
   chat_while (Suc (Suc 0)) (Suc 0) loads_example client_api_down [''hi'', ''quit''] [] [] =
     (Returned (), [],
      [ListTools (Inr [issues_tool]),
       Create (create_request client_api_down [to_available_tool issues_tool] [User_dict ''hi''])
         (Inl (OtherException ''APIConnectionError''))],
      [Prompt, Print_error (OtherException ''APIConnectionError''), Prompt]) \<and>
   fst (chat_while (Suc 0) (Suc 0) loads_example client_interrupted [''hi''] [] [])
     = Raised (NonException ''KeyboardInterrupt'') \<and>
   \<not> is_Exception (NonException ''KeyboardInterrupt'')"
proof -
  let ?log = "[ListTools (Inr [issues_tool]),
        Create (create_request client_api_down [to_available_tool issues_tool] [User_dict ''hi''])
          (Inl (OtherException ''APIConnectionError''))]"
  have texts: "strip ''hi'' = ''hi''" "lower ''hi'' = ''hi''"
    "strip ''quit'' = ''quit''" "lower ''quit'' = ''quit''"
    by (simp_all add: strip_def lower_def isspace_def)
  have run: "process_query (Suc 0) loads_example client_api_down ''hi'' [] =
      (Raised (OtherException ''APIConnectionError''), [User_dict ''hi''], ?log)"
    by (simp add: process_query_def client_api_down_def session_example_def loop_body_def
        Let_def)
  have failed: "Create (create_request client_api_down [to_available_tool issues_tool]
        [User_dict ''hi'']) (Inl (OtherException ''APIConnectionError''))
      \<in> set (new_events [] (process_query (Suc 0) loads_example client_api_down ''hi'' []))"
    by (simp add: run)
  have hyp: "process_query (Suc 0) loads_example client_api_down (strip ''hi'') [] =
      (Raised (OtherException ''APIConnectionError''), [User_dict ''hi''], ?log) \<and>
      is_Exception (OtherException ''APIConnectionError'') \<and>
      strip ''hi'' \<noteq> [] \<and> lower (strip ''hi'') \<noteq> ''quit''"
    by (simp add: texts run)
  have interrupted: "fst (chat_while (Suc 0) (Suc 0) loads_example client_interrupted
      [''hi''] [] []) = Raised (NonException ''KeyboardInterrupt'')"
    by (simp add: texts process_query_def client_interrupted_def session_example_def
        loop_body_def Let_def)
  note thm1 = query_failure_not_fatal [where fuel = "Suc 0" and L = loads_example
      and c = client_api_down and q = "''hi''" and tr = "[]" and line = "''hi''"
      and e = "OtherException ''APIConnectionError''" and msgs = "[User_dict ''hi'']"
      and tr' = ?log and k = "Suc 0" and rest = "[''quit'']" and out = "[]"]
  note thm2 = query_failure_not_fatal [where fuel = "Suc 0" and L = loads_example
      and c = client_interrupted and tr = "[]" and k = "Suc 0" and stdin = "[''hi'']"
      and out = "[]"]
  from thm1 failed have c1: "fst (process_query (Suc 0) loads_example client_api_down ''hi'' [])
     = Raised (OtherException ''APIConnectionError'')"
    by force
  from thm1 hyp have c2:
    "chat_while (Suc (Suc 0)) (Suc 0) loads_example client_api_down (''hi'' # [''quit'']) [] [] =
     chat_while (Suc 0) (Suc 0) loads_example client_api_down [''quit''] ?log
       ([] @ [Prompt, Print_error (OtherException ''APIConnectionError'')])"
    by blast
  have c3: "chat_while (Suc 0) (Suc 0) loads_example client_api_down [''quit''] ?log
       ([] @ [Prompt, Print_error (OtherException ''APIConnectionError'')]) =
     (Returned (), [], ?log,
      [Prompt, Print_error (OtherException ''APIConnectionError''), Prompt])"
    by (simp add: texts)
  from thm2 interrupted have c4: "\<not> is_Exception (NonException ''KeyboardInterrupt'')"
    by blast
  from c1 c2 c3 interrupted c4 show ?thesis
    by simp
qed


end
